theory Spec2Isabelle
  imports Complex_Main "HOL-Library.List_Lexorder" "HOL-Library.Char_ord"
    "HOL-Library.Product_Lexorder" "HOL-Library.Sublist"
begin

section \<open>Values of the tables\<close>

text \<open>
  The invoice tables are pandas data frames. A frame is modelled as the list of its rows,
  a row as a record of its columns. A column that may hold a missing value (\<open>None\<close>,
  \<open>NaN\<close>, \<open>NaT\<close>) has an option type. Amounts and weights are float columns that the
  parser fills (\<open>fillna(0)\<close>); they are modelled as exact rationals, so the binary rounding
  of float64 is outside this development. Strings are ordered by code point, dates are
  calendar days \<open>(year, month, day)\<close> ordered chronologically (a time of day is not
  modelled).
\<close>

type_synonym date = "nat \<times> nat \<times> nat"

text \<open>The result of a float division that may have a zero divisor.\<close>

datatype fnum = Finite rat | PosInf | NegInf | NaN

section \<open>parser.py\<close>

definition SERVICE_CODES :: "(string \<times> string) list" where
  "SERVICE_CODES =
    [(''007'', ''WW Express Saver''),
     (''704'', ''WW Standard''),
     (''004'', ''TB Standard''),
     (''003'', ''TB Standard''),
     (''005'', ''TB Standard''),
     (''031'', ''TB Standard''),
     (''041'', ''TB Standard''),
     (''000'', ''Address Correction''),
     (''353'', ''TB Standard Undeliverable Return''),
     (''354'', ''TB Standard Undeliverable Return''),
     (''355'', ''TB Standard Undeliverable Return''),
     (''402'', ''TB Standard Undeliverable Return''),
     (''755'', ''WW Standard Undeliverable Return''),
     (''857'', ''WW Express Saver Undeliverable Return''),
     (''001'', ''Dom. Standard'')]"

definition CHARGE_CATEGORIES :: "(string \<times> string) list" where
  "CHARGE_CATEGORIES =
    [(''FRT'', ''Freight''),
     (''FSC'', ''Fuel Surcharge''),
     (''TAX'', ''Tax (VAT)''),
     (''ACC'', ''Accessorial''),
     (''EXM'', ''Exemption/Credit''),
     (''INF'', ''Information Only''),
     (''MSC'', ''Miscellaneous''),
     (''BRK'', ''Brokerage''),
     (''GOV'', ''Government Charges''),
     (''DAS'', ''Delivery Area Surcharge''),
     (''RES'', ''Residential Surcharge'')]"

text \<open>\<open>d.get(k, default)\<close> where the key itself may be missing (\<open>None\<close> is no key of the tables).\<close>

definition dict_get :: "(string \<times> string) list \<Rightarrow> string option \<Rightarrow> string \<Rightarrow> string" where
  "dict_get d k dflt =
     (case k of
        None \<Rightarrow> dflt
      | Some key \<Rightarrow> (case map_of d key of None \<Rightarrow> dflt | Some v \<Rightarrow> v))"

text \<open>\<open>str.strip()\<close>: the white space of Python among the code points below 256.\<close>

definition isspace :: "char \<Rightarrow> bool" where
  "isspace c = ((of_char c :: nat) \<in> {9, 10, 11, 12, 13, 28, 29, 30, 31, 32, 133, 160})"

definition strip :: "string \<Rightarrow> string" where
  "strip s = rev (dropWhile isspace (rev (dropWhile isspace s)))"

text \<open>
  A row as \<open>_convert_types\<close> leaves it: the columns of \<open>COLUMN_MAPPING\<close> that the analyzer
  reads, and \<open>source_file\<close>. The other columns of the mapping are carried along and read
  by nothing below.
\<close>

record converted_line =
  invoice_date :: "date option"
  invoice_number :: "string option"
  currency :: "string option"
  shipment_date :: "date option"
  order_reference :: "string option"
  package_indicator :: "string option"
  tracking_number :: "string option"
  actual_weight :: rat
  billed_weight :: rat
  service_code :: "string option"
  shipment_type :: "string option"
  shipment_subtype :: "string option"
  charge_category :: "string option"
  charge_code :: "string option"
  charge_description :: "string option"
  discount_amount :: rat
  net_amount :: rat
  sender_name :: "string option"
  sender_city :: "string option"
  sender_country :: "string option"
  recipient_name :: "string option"
  recipient_company :: "string option"
  recipient_city :: "string option"
  recipient_country :: "string option"
  goods_description :: "string option"
  source_file :: string

text \<open>The columns \<open>_add_derived_fields\<close> adds.\<close>

record charge_line = converted_line +
  total_charge :: rat
  service_name :: string
  charge_category_name :: string
  is_package_line :: bool
  is_return :: bool
  weight_difference :: rat

text \<open>The \<open>lambda row\<close> of \<open>df.apply\<close> that computes \<open>service_name\<close>.\<close>

definition service_name_of :: "'a converted_line_scheme \<Rightarrow> string" where
  "service_name_of row =
     (case charge_description row of
        Some descr \<Rightarrow>
          if charge_category row = Some ''FRT'' \<and> strip descr \<noteq> []
          then descr
          else dict_get SERVICE_CODES (service_code row) ''Other''
      | None \<Rightarrow> dict_get SERVICE_CODES (service_code row) ''Other'')"

definition add_derived_fields_row :: "converted_line \<Rightarrow> charge_line" where
  "add_derived_fields_row row =
     converted_line.extend row
       (charge_line.fields
          (net_amount row)
          (service_name_of row)
          (dict_get CHARGE_CATEGORIES (charge_category row) ''Other'')
          (package_indicator row = Some ''1'')
          (shipment_type row = Some ''RTN'')
          (billed_weight row - actual_weight row))"

definition add_derived_fields :: "converted_line list \<Rightarrow> charge_line list" where
  "add_derived_fields df = map add_derived_fields_row df"

section \<open>Frame operations used by analyzer.py\<close>

text \<open>
  \<open>df.groupby(key)\<close> with the defaults \<open>sort=True, dropna=True\<close>: one group per distinct
  key that is present, in ascending key order, each group holding its rows in frame order.
\<close>

definition group_keys :: "('r \<Rightarrow> 'k::linorder option) \<Rightarrow> 'r list \<Rightarrow> 'k list" where
  "group_keys key rows = sort (remdups (List.map_filter key rows))"

definition group_rows :: "('r \<Rightarrow> 'k option) \<Rightarrow> 'k \<Rightarrow> 'r list \<Rightarrow> 'r list" where
  "group_rows key k rows = filter (\<lambda>r. key r = Some k) rows"

definition groupby :: "('r \<Rightarrow> 'k::linorder option) \<Rightarrow> 'r list \<Rightarrow> ('k \<times> 'r list) list" where
  "groupby key rows = map (\<lambda>k. (k, group_rows key k rows)) (group_keys key rows)"

text \<open>The aggregation \<open>"first"\<close>: the first value of the column that is present.\<close>

definition first_valid :: "('r \<Rightarrow> 'v option) \<Rightarrow> 'r list \<Rightarrow> 'v option" where
  "first_valid col rows = (case List.map_filter col rows of [] \<Rightarrow> None | v # _ \<Rightarrow> Some v)"

text \<open>
  \<open>"nunique"\<close> counts the distinct values that are present, \<open>"sum"\<close> adds a column. The
  sum here is exact; the code adds float64 values, so that two sums of the same amounts
  taken in different groupings can differ in the last digits there and not here.
\<close>

definition nunique :: "('r \<Rightarrow> 'v option) \<Rightarrow> 'r list \<Rightarrow> nat" where
  "nunique col rows = length (remdups (List.map_filter col rows))"

definition col_sum :: "('r \<Rightarrow> rat) \<Rightarrow> 'r list \<Rightarrow> rat" where
  "col_sum col rows = sum_list (map col rows)"

text \<open>
  \<open>sort_values(col)\<close>, ascending, is applied below only to frames whose keys are distinct
  (the labels of a \<open>groupby\<close>), where the result does not depend on how the sort treats
  equal keys.
\<close>

definition sort_values :: "('r \<Rightarrow> 'k::linorder) \<Rightarrow> 'r list \<Rightarrow> 'r list" where
  "sort_values col rows = sort_key col rows"

text \<open>
  \<open>sort_values(col, ascending=False)\<close> runs pandas' default sort kind, which promises no
  order among rows with equal keys. That order is a parameter of the model: for a column
  of keys, the positions of the rows in the order in which the library arranges them, one
  function for float keys and one for integer keys (the counts).
\<close>

record pandas_sort =
  order_float :: "rat list \<Rightarrow> nat list"
  order_int :: "nat list \<Rightarrow> nat list"

text \<open>\<open>take(indexer)\<close>: the rows at the given positions.\<close>

definition take_rows :: "'r list \<Rightarrow> nat list \<Rightarrow> 'r list" where
  "take_rows rows idx =
     List.map_filter (\<lambda>i. if i < length rows then Some (rows ! i) else None) idx"

definition sort_values_desc :: "pandas_sort \<Rightarrow> ('r \<Rightarrow> rat) \<Rightarrow> 'r list \<Rightarrow> 'r list" where
  "sort_values_desc srt col rows = take_rows rows (order_float srt (map col rows))"

definition sort_counts_desc :: "pandas_sort \<Rightarrow> ('r \<Rightarrow> nat) \<Rightarrow> 'r list \<Rightarrow> 'r list" where
  "sort_counts_desc srt col rows = take_rows rows (order_int srt (map col rows))"

text \<open>
  What every sort kind does: the positions are each position of the column once, and the
  keys at these positions descend.
\<close>

definition descending_order :: "('k::linorder list \<Rightarrow> nat list) \<Rightarrow> bool" where
  "descending_order order =
     (\<forall>ks. distinct (order ks) \<and> set (order ks) = {..<length ks}
           \<and> sorted_wrt (\<ge>) (map (\<lambda>i. ks ! i) (order ks)))"

definition sorts_descending :: "pandas_sort \<Rightarrow> bool" where
  "sorts_descending srt = (descending_order (order_float srt) \<and> descending_order (order_int srt))"

text \<open>
  Two sort kinds: one that keeps rows with equal keys in the order of the frame, and one
  that returns them in the reverse of that order.
\<close>

definition stable_order :: "'k::linorder list \<Rightarrow> nat list" where
  "stable_order ks = map fst (rev (sort_key snd (rev (enumerate 0 ks))))"

definition reversing_order :: "'k::linorder list \<Rightarrow> nat list" where
  "reversing_order ks = map fst (rev (sort_key snd (enumerate 0 ks)))"

definition stable_sort :: pandas_sort where
  "stable_sort = \<lparr> order_float = stable_order, order_int = stable_order \<rparr>"

definition reversing_sort :: pandas_sort where
  "reversing_sort = \<lparr> order_float = reversing_order, order_int = reversing_order \<rparr>"

text \<open>
  \<open>Series.round(2)\<close>: numpy rounds the scaled value to the nearest integer, halves to even.
  Here the exact value is rounded; the code rounds the float64 nearest to it, which for a
  decimal such as 8.345 lies on one side of the half.
\<close>

definition round_half_even :: "rat \<Rightarrow> int" where
  "round_half_even x =
     (let f = \<lfloor>x\<rfloor>; d = x - of_int f
      in if d < 1 / 2 then f else if 1 / 2 < d then f + 1 else if even f then f else f + 1)"

definition round2 :: "rat \<Rightarrow> rat" where
  "round2 x = of_int (round_half_even (x * 100)) / 100"

text \<open>\<open>x / total * 100\<close> rounded, on floats: a zero total gives an infinity or NaN.\<close>

definition percentage_of :: "rat \<Rightarrow> rat \<Rightarrow> fnum" where
  "percentage_of x grand_total =
     (if grand_total \<noteq> 0 then Finite (round2 (x / grand_total * 100))
      else if 0 < x then PosInf else if x < 0 then NegInf else NaN)"

section \<open>analyzer.py: the shipment table\<close>

text \<open>
  A row of \<open>shipment_info\<close>: the tracking number of the group and the aggregated columns.
  In the branch that aggregates the freight rows the frame also keeps the column
  \<open>charge_description\<close>, a copy of which becomes \<open>service_name\<close>; no rollup reads the
  original, so the record holds \<open>service_name\<close> only.
\<close>

record shipment_info =
  p_tracking_number :: string
  p_invoice_number :: "string option"
  p_invoice_date :: "date option"
  p_shipment_date :: "date option"
  p_order_reference :: "string option"
  p_service_code :: "string option"
  p_service_name :: "string option"
  p_actual_weight :: rat
  p_billed_weight :: rat
  p_sender_name :: "string option"
  p_sender_city :: "string option"
  p_sender_country :: "string option"
  p_recipient_name :: "string option"
  p_recipient_company :: "string option"
  p_recipient_city :: "string option"
  p_recipient_country :: "string option"
  p_shipment_type :: "string option"
  p_shipment_subtype :: "string option"
  p_goods_description :: "string option"
  p_is_return :: bool
  p_source_file :: string

text \<open>A row of \<open>packages\<close>: \<open>shipment_info\<close> merged with the charge totals.\<close>

record package = shipment_info +
  p_discount_amount :: rat
  p_net_amount :: rat
  p_total_charge :: rat

text \<open>
  One row per group. The columns that are never missing in a parsed frame (weights, the
  return flag, the source file) take the value of the group's first row; a group of
  \<open>groupby\<close> is never empty.
\<close>

definition agg_first :: "(charge_line \<Rightarrow> string option) \<Rightarrow> string \<times> charge_line list \<Rightarrow> shipment_info option" where
  "agg_first name_col kg =
     (case snd kg of
        [] \<Rightarrow> None
      | r # rs \<Rightarrow> Some
          \<lparr> p_tracking_number = fst kg,
            p_invoice_number = first_valid invoice_number (snd kg),
            p_invoice_date = first_valid invoice_date (snd kg),
            p_shipment_date = first_valid shipment_date (snd kg),
            p_order_reference = first_valid order_reference (snd kg),
            p_service_code = first_valid service_code (snd kg),
            p_service_name = first_valid name_col (snd kg),
            p_actual_weight = actual_weight r,
            p_billed_weight = billed_weight r,
            p_sender_name = first_valid sender_name (snd kg),
            p_sender_city = first_valid sender_city (snd kg),
            p_sender_country = first_valid sender_country (snd kg),
            p_recipient_name = first_valid recipient_name (snd kg),
            p_recipient_company = first_valid recipient_company (snd kg),
            p_recipient_city = first_valid recipient_city (snd kg),
            p_recipient_country = first_valid recipient_country (snd kg),
            p_shipment_type = first_valid shipment_type (snd kg),
            p_shipment_subtype = first_valid shipment_subtype (snd kg),
            p_goods_description = first_valid goods_description (snd kg),
            p_is_return = is_return r,
            p_source_file = source_file r \<rparr>)"

definition shipment_info_of :: "(charge_line \<Rightarrow> string option) \<Rightarrow> charge_line list \<Rightarrow> shipment_info list" where
  "shipment_info_of name_col rows = List.map_filter (agg_first name_col) (groupby tracking_number rows)"

definition frt_rows :: "charge_line list \<Rightarrow> charge_line list" where
  "frt_rows df = filter (\<lambda>r. package_indicator r = Some ''1'' \<and> charge_category r = Some ''FRT'') df"

definition pkg_rows :: "charge_line list \<Rightarrow> charge_line list" where
  "pkg_rows df = filter (\<lambda>r. package_indicator r = Some ''1'') df"

text \<open>The rows that describe the shipments: the freight package rows, or any package rows.\<close>

definition descriptor_rows :: "charge_line list \<Rightarrow> charge_line list" where
  "descriptor_rows df = (if frt_rows df \<noteq> [] then frt_rows df else pkg_rows df)"

definition charge_totals :: "charge_line list \<Rightarrow> (string \<times> rat \<times> rat \<times> rat) list" where
  "charge_totals df =
     map (\<lambda>kg. (fst kg, col_sum discount_amount (snd kg), col_sum net_amount (snd kg),
                 col_sum total_charge (snd kg)))
       (groupby tracking_number df)"

text \<open>
  \<open>shipment_info.merge(charge_totals, on="tracking_number", how="left")\<close>. The keys of
  \<open>charge_totals\<close> are unique. A left row without a partner would get NaN totals; every
  tracking number of \<open>shipment_info\<close> is one of \<open>charge_totals\<close> (lemma
  \<open>packages_tracking_numbers\<close> below: no row is lost), so the rows are built from the
  partner that is found.
\<close>

definition merge_left :: "shipment_info list \<Rightarrow> (string \<times> rat \<times> rat \<times> rat) list \<Rightarrow> package list" where
  "merge_left info totals =
     List.map_filter
       (\<lambda>s. case map_of totals (p_tracking_number s) of
               None \<Rightarrow> None
             | Some t \<Rightarrow> Some (shipment_info.extend s
                          (package.fields (fst t) (fst (snd t)) (snd (snd t)))))
       info"

definition aggregate_packages :: "charge_line list \<Rightarrow> package list" where
  "aggregate_packages df =
     (if df = [] then []
      else
        let shipment_info =
              (if frt_rows df \<noteq> [] then shipment_info_of charge_description (frt_rows df)
               else shipment_info_of (\<lambda>r. Some (service_name r)) (pkg_rows df))
        in merge_left shipment_info (charge_totals df))"

text \<open>The analyzer: the wrapped frame and the cache \<open>_packages\<close>.\<close>

record InvoiceAnalyzer =
  data :: "charge_line list"
  cached_packages :: "package list option"

definition new_analyzer :: "charge_line list \<Rightarrow> InvoiceAnalyzer" where
  "new_analyzer df = \<lparr> data = df, cached_packages = None \<rparr>"

text \<open>The property \<open>packages\<close>: it returns the table and the analyzer with the cache filled.\<close>

definition packages :: "InvoiceAnalyzer \<Rightarrow> package list \<times> InvoiceAnalyzer" where
  "packages self =
     (case cached_packages self of
        None \<Rightarrow>
          (let p = aggregate_packages (data self)
           in (p, self\<lparr>cached_packages := Some p\<rparr>))
      | Some p \<Rightarrow> (p, self))"

section \<open>analyzer.py: cost breakdown\<close>

record breakdown_row =
  cb_charge_category :: string
  cb_charge_category_name :: string
  cb_discount_amount :: rat
  cb_net_amount :: rat
  cb_total_charge :: rat
  cb_percentage :: fnum

text \<open>The two grouping columns as one key; a row without a category belongs to no group.\<close>

definition category_key :: "charge_line \<Rightarrow> (string \<times> string) option" where
  "category_key r = map_option (\<lambda>c. (c, charge_category_name r)) (charge_category r)"

definition cost_breakdown :: "pandas_sort \<Rightarrow> charge_line list \<Rightarrow> breakdown_row list" where
  "cost_breakdown srt df =
     (if df = [] then []
      else
        let groups = groupby category_key df;
            grand_total = sum_list (map (\<lambda>kg. col_sum total_charge (snd kg)) groups)
        in sort_values_desc srt cb_total_charge
             (map (\<lambda>kg. \<lparr> cb_charge_category = fst (fst kg),
                           cb_charge_category_name = snd (fst kg),
                           cb_discount_amount = col_sum discount_amount (snd kg),
                           cb_net_amount = col_sum net_amount (snd kg),
                           cb_total_charge = col_sum total_charge (snd kg),
                           cb_percentage = percentage_of (col_sum total_charge (snd kg)) grand_total \<rparr>)
                groups))"

definition analyze_cost_breakdown ::
  "pandas_sort \<Rightarrow> InvoiceAnalyzer \<Rightarrow> breakdown_row list \<times> InvoiceAnalyzer" where
  "analyze_cost_breakdown srt self = (cost_breakdown srt (data self), self)"

section \<open>Calendar dates and \<open>strftime\<close>\<close>

text \<open>
  The directives the analyzer uses, after CPython's \<open>datetime\<close>: \<open>%Y\<close> the year in four
  digits, \<open>%m\<close> and \<open>%d\<close> month and day in two, and \<open>%W\<close> the week of the year with Monday
  as the first day of the week, in two digits; the days of a year before its first Monday
  are in week 0.
\<close>

definition digit_char :: "nat \<Rightarrow> char" where
  "digit_char n = ''0123456789'' ! (n mod 10)"

definition pad2 :: "nat \<Rightarrow> string" where
  "pad2 n = [digit_char (n div 10), digit_char n]"

definition pad4 :: "nat \<Rightarrow> string" where
  "pad4 n = [digit_char (n div 1000), digit_char (n div 100), digit_char (n div 10), digit_char n]"

text \<open>
  \<open>%Y\<close> as the C library prints it, a decimal number without padding, for the years 1 to
  9999 of \<open>datetime\<close>; the years of pandas timestamps (1677 to 2262) have four digits.
\<close>

definition year_digits :: "nat \<Rightarrow> string" where
  "year_digits y =
     (if y < 10 then [digit_char y]
      else if y < 100 then pad2 y
      else if y < 1000 then digit_char (y div 100) # pad2 y
      else pad4 y)"

definition is_leap :: "nat \<Rightarrow> bool" where
  "is_leap y = (y mod 4 = 0 \<and> (y mod 100 \<noteq> 0 \<or> y mod 400 = 0))"

text \<open>The table \<open>_DAYS_BEFORE_MONTH\<close> of CPython, and the leap day after February.\<close>

definition days_before_month :: "nat \<Rightarrow> nat \<Rightarrow> nat" where
  "days_before_month y m =
     [0, 31, 59, 90, 120, 151, 181, 212, 243, 273, 304, 334] ! (m - 1)
     + (if 2 < m \<and> is_leap y then 1 else 0)"

definition days_before_year :: "nat \<Rightarrow> nat" where
  "days_before_year y = 365 * (y - 1) + (y - 1) div 4 - (y - 1) div 100 + (y - 1) div 400"

text \<open>Day of the year from 1, proleptic Gregorian ordinal, and weekday with Monday as 0.\<close>

definition yday :: "date \<Rightarrow> nat" where
  "yday dt = (case dt of (y, m, d) \<Rightarrow> days_before_month y m + d)"

definition toordinal :: "date \<Rightarrow> nat" where
  "toordinal dt = (case dt of (y, m, d) \<Rightarrow> days_before_year y + yday dt)"

definition weekday :: "date \<Rightarrow> nat" where
  "weekday dt = (toordinal dt + 6) mod 7"

definition week_of_year_monday :: "date \<Rightarrow> nat" where
  "week_of_year_monday dt = (yday dt - 1 + 7 - weekday dt) div 7"

definition strftime_Y_W :: "date \<Rightarrow> string" where
  "strftime_Y_W dt = year_digits (fst dt) @ ''-W'' @ pad2 (week_of_year_monday dt)"

definition strftime_Y_m :: "date \<Rightarrow> string" where
  "strftime_Y_m dt = year_digits (fst dt) @ ''-'' @ pad2 (fst (snd dt))"

definition strftime_Y_m_d :: "date \<Rightarrow> string" where
  "strftime_Y_m_d dt = year_digits (fst dt) @ ''-'' @ pad2 (fst (snd dt)) @ ''-'' @ pad2 (snd (snd dt))"

text \<open>
  \<open>isocalendar()\<close>: the ISO 8601 year and week. Weeks run from Monday and week 1 of a year
  is the week of its first Thursday, so the first days of January may belong to week 52 or
  53 of the year before and the last days of December to week 1 of the year after.
\<close>

definition weeks_in_iso_year :: "nat \<Rightarrow> nat" where
  "weeks_in_iso_year y =
     (if weekday (y, 1, 1) = 3 \<or> (is_leap y \<and> weekday (y, 1, 1) = 2) then 53 else 52)"

definition iso_week :: "date \<Rightarrow> nat \<times> nat" where
  "iso_week dt =
     (let y = fst dt; w = (yday dt + 9 - weekday dt) div 7
      in if w < 1 then (y - 1, weeks_in_iso_year (y - 1))
         else if weeks_in_iso_year y < w then (y + 1, 1)
         else (y, w))"

text \<open>
  parser.py, \<open>_add_derived_fields\<close>: the column \<open>shipment_week\<close> that the parser extracts
  ``for trend analysis'', \<open>dt.isocalendar().week\<close> of the shipment date. No rollup reads it.
\<close>

definition shipment_week :: "date \<Rightarrow> nat" where
  "shipment_week dt = snd (iso_week dt)"

section \<open>analyzer.py: country names\<close>

text \<open>
  \<open>pycountry\<close> is an optional import. It is a parameter of the rollups that name
  countries: \<open>None\<close> when the module is missing (\<open>HAS_PYCOUNTRY\<close> false), else the lookup
  of a name by alpha-2 code.
\<close>

type_synonym pycountry = "(string \<Rightarrow> string option) option"

definition get_country_name :: "pycountry \<Rightarrow> string \<Rightarrow> string" where
  "get_country_name pyc code =
     (case pyc of
        None \<Rightarrow> (if code = [] then ''Unknown'' else code)
      | Some lookup \<Rightarrow>
          if code = [] then ''Unknown''
          else (case lookup code of Some name \<Rightarrow> name | None \<Rightarrow> code))"

section \<open>analyzer.py: summary\<close>

record AnalysisSummary =
  s_total_invoices :: nat
  s_total_packages :: nat
  s_total_cost :: rat
  s_total_freight :: rat
  s_total_fuel_surcharge :: rat
  s_total_tax :: rat
  s_total_accessorial :: rat
  s_avg_cost_per_package :: rat
  s_total_weight_kg :: rat
  s_date_range :: "(string \<times> string) option"
  s_top_destination_country :: "string option"
  s_return_rate :: rat
  s_currency :: string

text \<open>\<open>Series.get(key, 0)\<close> on the sums of a \<open>groupby\<close>.\<close>

definition series_get :: "('k \<times> rat) list \<Rightarrow> 'k \<Rightarrow> rat \<Rightarrow> rat" where
  "series_get series k dflt = (case map_of series k of None \<Rightarrow> dflt | Some v \<Rightarrow> v)"

text \<open>
  \<open>value_counts()\<close>: the distinct values that are present, in the order of their first
  appearance, then sorted by descending count with the default sort kind.
\<close>

definition value_counts :: "pandas_sort \<Rightarrow> 'v list \<Rightarrow> ('v \<times> nat) list" where
  "value_counts srt vs =
     sort_counts_desc srt snd (map (\<lambda>v. (v, count_list vs v)) (rev (remdups (rev vs))))"

definition summary_of ::
  "pandas_sort \<Rightarrow> charge_line list \<Rightarrow> package list \<Rightarrow> AnalysisSummary" where
  "summary_of srt df pk =
     (let charge_totals =
            map (\<lambda>kg. (fst kg, col_sum total_charge (snd kg))) (groupby charge_category df);
          valid_dates = List.map_filter shipment_date df;
          date_range =
            (case valid_dates of
               [] \<Rightarrow> None
             | d # ds \<Rightarrow> Some (strftime_Y_m_d (fold min ds d), strftime_Y_m_d (fold max ds d)));
          top_dest =
            (if pk \<noteq> [] then
               (case value_counts srt (List.map_filter p_recipient_country pk) of
                  [] \<Rightarrow> None
                | vc # _ \<Rightarrow> Some (fst vc))
             else None);
          return_count = length (filter p_is_return pk);
          return_rate =
            (if 0 < length pk then of_nat return_count / of_nat (length pk) * 100 else 0);
          cur =
            (case List.map_filter currency df of [] \<Rightarrow> ''EUR'' | c # _ \<Rightarrow> c)
      in \<lparr> s_total_invoices = nunique invoice_number df,
           s_total_packages = length pk,
           s_total_cost = col_sum p_total_charge pk,
           s_total_freight = series_get charge_totals ''FRT'' 0,
           s_total_fuel_surcharge = series_get charge_totals ''FSC'' 0,
           s_total_tax = series_get charge_totals ''TAX'' 0,
           s_total_accessorial = series_get charge_totals ''ACC'' 0,
           s_avg_cost_per_package =
             (if 0 < length pk then col_sum p_total_charge pk / of_nat (length pk) else 0),
           s_total_weight_kg = col_sum p_billed_weight pk,
           s_date_range = date_range,
           s_top_destination_country = top_dest,
           s_return_rate = return_rate,
           s_currency = cur \<rparr>)"

definition empty_summary :: AnalysisSummary where
  "empty_summary =
     \<lparr> s_total_invoices = 0, s_total_packages = 0, s_total_cost = 0, s_total_freight = 0,
       s_total_fuel_surcharge = 0, s_total_tax = 0, s_total_accessorial = 0,
       s_avg_cost_per_package = 0, s_total_weight_kg = 0, s_date_range = None,
       s_top_destination_country = None, s_return_rate = 0, s_currency = ''EUR'' \<rparr>"

definition get_summary ::
  "pandas_sort \<Rightarrow> InvoiceAnalyzer \<Rightarrow> AnalysisSummary \<times> InvoiceAnalyzer" where
  "get_summary srt self =
     (if data self = [] then (empty_summary, self)
      else case packages self of (pk, self') \<Rightarrow> (summary_of srt (data self) pk, self'))"

section \<open>analyzer.py: destinations\<close>

record destination_row =
  d_country_code :: string
  d_package_count :: nat
  d_total_cost :: rat
  d_total_weight :: rat
  d_return_count :: nat
  d_country_name :: string
  d_avg_cost_per_package :: rat
  d_return_rate :: rat

definition by_destination ::
  "pandas_sort \<Rightarrow> pycountry \<Rightarrow> package list \<Rightarrow> destination_row list" where
  "by_destination srt pyc pk =
     (if pk = [] then []
      else
        let valid_packages = filter (\<lambda>p. p_recipient_country p \<noteq> None) pk
        in if valid_packages = [] then []
           else sort_values_desc srt d_total_cost
                  (map (\<lambda>kg.
                      \<lparr> d_country_code = fst kg,
                        d_package_count = length (snd kg),
                        d_total_cost = col_sum p_total_charge (snd kg),
                        d_total_weight = col_sum p_billed_weight (snd kg),
                        d_return_count = length (filter p_is_return (snd kg)),
                        d_country_name =
                          (case pyc of None \<Rightarrow> fst kg | Some _ \<Rightarrow> get_country_name pyc (fst kg)),
                        d_avg_cost_per_package =
                          round2 (col_sum p_total_charge (snd kg) / of_nat (length (snd kg))),
                        d_return_rate =
                          round2 (of_nat (length (filter p_is_return (snd kg)))
                                  / of_nat (length (snd kg)) * 100) \<rparr>)
                     (groupby p_recipient_country valid_packages)))"

definition analyze_by_destination ::
  "pandas_sort \<Rightarrow> pycountry \<Rightarrow> InvoiceAnalyzer \<Rightarrow> destination_row list \<times> InvoiceAnalyzer" where
  "analyze_by_destination srt pyc self =
     (case packages self of (pk, self') \<Rightarrow> (by_destination srt pyc pk, self'))"

section \<open>analyzer.py: trends\<close>

record trend_row =
  t_period :: string
  t_package_count :: nat
  t_total_cost :: rat
  t_total_weight :: rat
  t_avg_cost_per_package :: rat

definition period_label :: "string \<Rightarrow> date \<Rightarrow> string" where
  "period_label period dt = (if period = ''week'' then strftime_Y_W dt else strftime_Y_m dt)"

text \<open>
  \<open>dropna(subset=["shipment_date"])\<close> builds a new frame, to which the column \<open>period\<close> is
  added: the rows that have a date, each paired with its label.
\<close>

definition with_period :: "string \<Rightarrow> package list \<Rightarrow> (string \<times> package) list" where
  "with_period period pk =
     List.map_filter (\<lambda>p. map_option (\<lambda>dt. (period_label period dt, p)) (p_shipment_date p)) pk"

definition trends :: "string \<Rightarrow> package list \<Rightarrow> trend_row list" where
  "trends period pk =
     (if pk = [] then []
      else
        let dated = with_period period pk
        in if dated = [] then []
           else sort_values t_period
                  (map (\<lambda>kg.
                      \<lparr> t_period = fst kg,
                        t_package_count = length (snd kg),
                        t_total_cost = col_sum (\<lambda>lp. p_total_charge (snd lp)) (snd kg),
                        t_total_weight = col_sum (\<lambda>lp. p_billed_weight (snd lp)) (snd kg),
                        t_avg_cost_per_package =
                          round2 (col_sum (\<lambda>lp. p_total_charge (snd lp)) (snd kg)
                                  / of_nat (length (snd kg))) \<rparr>)
                     (groupby (\<lambda>lp. Some (fst lp)) dated)))"

definition analyze_trends :: "string \<Rightarrow> InvoiceAnalyzer \<Rightarrow> trend_row list \<times> InvoiceAnalyzer" where
  "analyze_trends period self =
     (case packages self of (pk, self') \<Rightarrow> (trends period pk, self'))"

section \<open>analyzer.py: returns\<close>

text \<open>
  The rollups that return a dictionary return \<open>"summary": {}\<close> and empty frames when there
  is nothing to report: the summary is an option, \<open>None\<close> for the empty dictionary.
\<close>

record returns_summary =
  r_total_returns :: nat
  r_total_return_cost :: rat
  r_return_rate :: rat
  r_avg_return_cost :: rat

record reason_row =
  rr_reason :: string
  rr_count :: nat
  rr_total_cost :: rat

text \<open>The column \<open>country_name\<close> exists only when \<open>pycountry\<close> is there.\<close>

record return_country_row =
  rc_country_code :: string
  rc_return_count :: nat
  rc_return_cost :: rat
  rc_country_name :: "string option"

record returns_analysis =
  ra_summary :: "returns_summary option"
  ra_by_reason :: "reason_row list"
  ra_by_country :: "return_country_row list"

definition no_returns :: returns_analysis where
  "no_returns = \<lparr> ra_summary = None, ra_by_reason = [], ra_by_country = [] \<rparr>"

definition returns_of :: "pandas_sort \<Rightarrow> pycountry \<Rightarrow> package list \<Rightarrow> returns_analysis" where
  "returns_of srt pyc pk =
     (if pk = [] then no_returns
      else
        let returns = filter (\<lambda>p. p_is_return p = True) pk
        in if returns = [] then no_returns
           else
             \<lparr> ra_summary = Some
                 \<lparr> r_total_returns = length returns,
                   r_total_return_cost = col_sum p_total_charge returns,
                   r_return_rate = of_nat (length returns) / of_nat (length pk) * 100,
                   r_avg_return_cost = col_sum p_total_charge returns / of_nat (length returns) \<rparr>,
               ra_by_reason =
                 sort_counts_desc srt rr_count
                   (map (\<lambda>kg. \<lparr> rr_reason = fst kg, rr_count = length (snd kg),
                                 rr_total_cost = col_sum p_total_charge (snd kg) \<rparr>)
                      (groupby p_shipment_subtype returns)),
               ra_by_country =
                 sort_counts_desc srt rc_return_count
                   (map (\<lambda>kg. \<lparr> rc_country_code = fst kg, rc_return_count = length (snd kg),
                                 rc_return_cost = col_sum p_total_charge (snd kg),
                                 rc_country_name =
                                   (case pyc of None \<Rightarrow> None
                                    | Some _ \<Rightarrow> Some (get_country_name pyc (fst kg))) \<rparr>)
                      (groupby p_sender_country returns)) \<rparr>)"

definition analyze_returns ::
  "pandas_sort \<Rightarrow> pycountry \<Rightarrow> InvoiceAnalyzer \<Rightarrow> returns_analysis \<times> InvoiceAnalyzer" where
  "analyze_returns srt pyc self =
     (case packages self of (pk, self') \<Rightarrow> (returns_of srt pyc pk, self'))"

section \<open>analyzer.py: weights\<close>

record weights_summary =
  w_total_actual_weight :: rat
  w_total_billed_weight :: rat
  w_avg_actual_weight :: rat
  w_avg_billed_weight :: rat
  w_weight_premium :: rat
  w_packages_with_dim_weight :: nat

record distribution_row =
  wd_weight_range :: string
  wd_package_count :: nat
  wd_total_cost :: rat

record weight_detail_row =
  wt_tracking_number :: string
  wt_actual_weight :: rat
  wt_billed_weight :: rat
  wt_weight_diff :: rat

text \<open>The populated result has the third key \<open>"detail"\<close>; the empty one is given no rows for it.\<close>

record weights_analysis =
  wa_summary :: "weights_summary option"
  wa_distribution :: "distribution_row list"
  wa_detail :: "weight_detail_row list"

text \<open>The bin edges; \<open>None\<close> is \<open>float("inf")\<close>.\<close>

definition bins :: "rat option list" where
  "bins = [Some 0, Some (1 / 2), Some 1, Some 2, Some 5, Some 10, Some 20, Some 50, None]"

definition labels :: "string list" where
  "labels = [''0-0.5kg'', ''0.5-1kg'', ''1-2kg'', ''2-5kg'', ''5-10kg'', ''10-20kg'',
             ''20-50kg'', ''50kg+'']"

definition above_edge :: "rat option \<Rightarrow> rat \<Rightarrow> bool" where
  "above_edge e x = (case e of None \<Rightarrow> False | Some b \<Rightarrow> b < x)"

definition upto_edge :: "rat option \<Rightarrow> rat \<Rightarrow> bool" where
  "upto_edge e x = (case e of None \<Rightarrow> True | Some b \<Rightarrow> x \<le> b)"

text \<open>
  \<open>pd.cut(x, bins=edges)\<close> with its defaults \<open>right=True, include_lowest=False\<close>: the index
  of the interval \<open>(edges[i], edges[i+1]]\<close> that holds \<open>x\<close>, missing when no interval does.
\<close>

fun pd_cut_from :: "nat \<Rightarrow> rat option list \<Rightarrow> rat \<Rightarrow> nat option" where
  "pd_cut_from i (lo # hi # edges) x =
     (if above_edge lo x \<and> upto_edge hi x then Some i else pd_cut_from (Suc i) (hi # edges) x)"
| "pd_cut_from i edges x = None"

definition pd_cut :: "rat option list \<Rightarrow> rat \<Rightarrow> nat option" where
  "pd_cut edges x = pd_cut_from 0 edges x"

definition weight_bucket :: "package \<Rightarrow> nat option" where
  "weight_bucket p = pd_cut bins (p_billed_weight p)"

text \<open>
  \<open>groupby("weight_bucket", observed=True)\<close>: the categories that occur, in the order of
  the labels.
\<close>

definition weight_distribution :: "package list \<Rightarrow> distribution_row list" where
  "weight_distribution weight_data =
     map (\<lambda>kg. \<lparr> wd_weight_range = labels ! fst kg,
                   wd_package_count = length (snd kg),
                   wd_total_cost = col_sum p_total_charge (snd kg) \<rparr>)
       (groupby weight_bucket weight_data)"

definition weights_of :: "package list \<Rightarrow> weights_analysis" where
  "weights_of pk =
     (if pk = [] then \<lparr> wa_summary = None, wa_distribution = [], wa_detail = [] \<rparr>
      else
        let weight_data = filter (\<lambda>p. 0 < p_billed_weight p \<or> 0 < p_actual_weight p) pk
        in if weight_data = [] then \<lparr> wa_summary = None, wa_distribution = [], wa_detail = [] \<rparr>
           else
             \<lparr> wa_summary = Some
                 \<lparr> w_total_actual_weight = col_sum p_actual_weight weight_data,
                   w_total_billed_weight = col_sum p_billed_weight weight_data,
                   w_avg_actual_weight =
                     col_sum p_actual_weight weight_data / of_nat (length weight_data),
                   w_avg_billed_weight =
                     col_sum p_billed_weight weight_data / of_nat (length weight_data),
                   w_weight_premium =
                     (if 0 < col_sum p_actual_weight weight_data
                      then (col_sum p_billed_weight weight_data - col_sum p_actual_weight weight_data)
                           / col_sum p_actual_weight weight_data * 100
                      else 0),
                   w_packages_with_dim_weight =
                     length (filter (\<lambda>p. 0 < p_billed_weight p - p_actual_weight p) weight_data) \<rparr>,
               wa_distribution = weight_distribution weight_data,
               wa_detail =
                 map (\<lambda>p. \<lparr> wt_tracking_number = p_tracking_number p,
                              wt_actual_weight = p_actual_weight p,
                              wt_billed_weight = p_billed_weight p,
                              wt_weight_diff = p_billed_weight p - p_actual_weight p \<rparr>)
                   weight_data \<rparr>)"

definition analyze_weights :: "InvoiceAnalyzer \<Rightarrow> weights_analysis \<times> InvoiceAnalyzer" where
  "analyze_weights self =
     (case packages self of (pk, self') \<Rightarrow> (weights_of pk, self'))"

section \<open>analyzer.py: services\<close>

record service_row =
  sv_service_code :: string
  sv_service_name :: string
  sv_package_count :: nat
  sv_total_cost :: rat
  sv_total_weight :: rat
  sv_avg_cost_per_package :: rat

definition service_key :: "package \<Rightarrow> (string \<times> string) option" where
  "service_key p =
     (case p_service_code p of
        None \<Rightarrow> None
      | Some c \<Rightarrow> map_option (\<lambda>n. (c, n)) (p_service_name p))"

definition by_service :: "pandas_sort \<Rightarrow> package list \<Rightarrow> service_row list" where
  "by_service srt pk =
     (if pk = [] then []
      else sort_values_desc srt sv_total_cost
             (map (\<lambda>kg.
                 \<lparr> sv_service_code = fst (fst kg),
                   sv_service_name = snd (fst kg),
                   sv_package_count = length (snd kg),
                   sv_total_cost = col_sum p_total_charge (snd kg),
                   sv_total_weight = col_sum p_billed_weight (snd kg),
                   sv_avg_cost_per_package =
                     round2 (col_sum p_total_charge (snd kg) / of_nat (length (snd kg))) \<rparr>)
                (groupby service_key pk)))"

definition analyze_services ::
  "pandas_sort \<Rightarrow> InvoiceAnalyzer \<Rightarrow> service_row list \<times> InvoiceAnalyzer" where
  "analyze_services srt self =
     (case packages self of (pk, self') \<Rightarrow> (by_service srt pk, self'))"

section \<open>analyzer.py: duties and brokerage\<close>

record duties_summary =
  du_total_cost :: rat
  du_shipment_count :: nat
  du_brokerage_cost :: rat
  du_customs_cost :: rat
  du_other_cost :: rat
  du_avg_cost_per_shipment :: rat

record charge_type_row =
  ct_charge_category :: string
  ct_charge_name :: string
  ct_total_cost :: rat
  ct_shipment_count :: nat

record country_cost_row =
  cc_country_code :: string
  cc_shipment_count :: nat
  cc_total_cost :: rat
  cc_country_name :: string
  cc_avg_cost_per_shipment :: rat

record duties_detail_row =
  dd_tracking_number :: string
  dd_country :: "string option"
  dd_recipient :: "string option"
  dd_city :: "string option"
  dd_order_reference :: "string option"
  dd_shipment_date :: "date option"
  dd_total_cost :: rat
  dd_BRK :: rat
  dd_GOV :: rat

record duties_analysis =
  da_summary :: "duties_summary option"
  da_by_charge_type :: "charge_type_row list"
  da_by_country :: "country_cost_row list"
  da_detail :: "duties_detail_row list"

definition no_duties :: duties_analysis where
  "no_duties = \<lparr> da_summary = None, da_by_charge_type = [], da_by_country = [], da_detail = [] \<rparr>"

text \<open>
  \<open>country_data\<close>, one row per tracking number of the import rows, with the two columns the
  pivot table contributes: the sum of \<open>net_amount\<close> of the shipment's rows of the category,
  0 where it has none.
\<close>

definition duties_detail :: "charge_line list \<Rightarrow> duties_detail_row list" where
  "duties_detail imp_data =
     map (\<lambda>kg.
         \<lparr> dd_tracking_number = fst kg,
           dd_country = first_valid recipient_country (snd kg),
           dd_recipient = first_valid recipient_name (snd kg),
           dd_city = first_valid recipient_city (snd kg),
           dd_order_reference = first_valid order_reference (snd kg),
           dd_shipment_date = first_valid shipment_date (snd kg),
           dd_total_cost = col_sum net_amount (snd kg),
           dd_BRK = col_sum net_amount (filter (\<lambda>r. charge_category r = Some ''BRK'') (snd kg)),
           dd_GOV = col_sum net_amount (filter (\<lambda>r. charge_category r = Some ''GOV'') (snd kg)) \<rparr>)
       (groupby tracking_number imp_data)"

definition country_costs ::
  "pandas_sort \<Rightarrow> pycountry \<Rightarrow> ('r \<Rightarrow> string option) \<Rightarrow> ('r \<Rightarrow> rat) \<Rightarrow> 'r list \<Rightarrow>
   country_cost_row list" where
  "country_costs srt pyc country cost rows =
     sort_values_desc srt cc_total_cost
       (map (\<lambda>kg.
           \<lparr> cc_country_code = fst kg,
             cc_shipment_count = length (snd kg),
             cc_total_cost = col_sum cost (snd kg),
             cc_country_name =
               (case pyc of None \<Rightarrow> fst kg | Some _ \<Rightarrow> get_country_name pyc (fst kg)),
             cc_avg_cost_per_shipment = round2 (col_sum cost (snd kg) / of_nat (length (snd kg))) \<rparr>)
          (groupby country rows))"

definition duties_of :: "pandas_sort \<Rightarrow> pycountry \<Rightarrow> charge_line list \<Rightarrow> duties_analysis" where
  "duties_of srt pyc df =
     (if df = [] then no_duties
      else
        let imp_data = filter (\<lambda>r. shipment_subtype r = Some ''IMP'') df
        in if imp_data = [] then no_duties
           else
             let imp_trackings = remdups (map tracking_number imp_data);
                 total_cost = col_sum net_amount imp_data;
                 brokerage_cost =
                   col_sum net_amount (filter (\<lambda>r. charge_category r = Some ''BRK'') imp_data);
                 customs_cost =
                   col_sum net_amount (filter (\<lambda>r. charge_category r = Some ''GOV'') imp_data)
             in \<lparr> da_summary = Some
                    \<lparr> du_total_cost = total_cost,
                      du_shipment_count = length imp_trackings,
                      du_brokerage_cost = brokerage_cost,
                      du_customs_cost = customs_cost,
                      du_other_cost = total_cost - brokerage_cost - customs_cost,
                      du_avg_cost_per_shipment =
                        (if 0 < length imp_trackings
                         then total_cost / of_nat (length imp_trackings) else 0) \<rparr>,
                  da_by_charge_type =
                    sort_values_desc srt ct_total_cost
                      (map (\<lambda>kg.
                          \<lparr> ct_charge_category = fst (fst kg),
                            ct_charge_name = snd (fst kg),
                            ct_total_cost = col_sum net_amount (snd kg),
                            ct_shipment_count = nunique tracking_number (snd kg) \<rparr>)
                         (groupby category_key imp_data)),
                  da_by_country = country_costs srt pyc dd_country dd_total_cost (duties_detail imp_data),
                  da_detail = sort_values_desc srt dd_total_cost (duties_detail imp_data) \<rparr>)"

definition analyze_duties_and_brokerage ::
  "pandas_sort \<Rightarrow> pycountry \<Rightarrow> InvoiceAnalyzer \<Rightarrow> duties_analysis \<times> InvoiceAnalyzer" where
  "analyze_duties_and_brokerage srt pyc self = (duties_of srt pyc (data self), self)"

section \<open>analyzer.py: accessorials\<close>

record accessorial_summary =
  ac_total_cost :: rat
  ac_charge_count :: nat
  ac_shipment_count :: nat
  ac_residential_cost :: rat
  ac_surge_cost :: rat
  ac_area_surcharge_cost :: rat
  ac_avg_per_shipment :: rat

record charge_code_row =
  cd_charge_code :: string
  cd_description :: string
  cd_total_cost :: rat
  cd_shipment_count :: nat

record accessorial_trend_row =
  at_period :: string
  at_total_cost :: rat
  at_shipment_count :: nat

record accessorial_analysis =
  aa_summary :: "accessorial_summary option"
  aa_by_charge_code :: "charge_code_row list"
  aa_by_country :: "country_cost_row list"
  aa_trends :: "accessorial_trend_row list"

definition no_accessorials :: accessorial_analysis where
  "no_accessorials = \<lparr> aa_summary = None, aa_by_charge_code = [], aa_by_country = [], aa_trends = [] \<rparr>"

definition isin :: "string option \<Rightarrow> string list \<Rightarrow> bool" where
  "isin v vs = (case v of None \<Rightarrow> False | Some x \<Rightarrow> x \<in> set vs)"

definition charge_code_key :: "charge_line \<Rightarrow> (string \<times> string) option" where
  "charge_code_key r =
     (case charge_code r of
        None \<Rightarrow> None
      | Some c \<Rightarrow> map_option (\<lambda>d. (c, d)) (charge_description r))"

text \<open>
  \<open>acc_by_tracking\<close> merged on the left with \<open>tracking_country\<close>, the first recipient country
  of each tracking number among the rows of the whole frame that have one: pairs of the
  accessorial cost of a shipment and its country, if any.
\<close>

definition acc_with_country :: "charge_line list \<Rightarrow> charge_line list \<Rightarrow> (rat \<times> string option) list" where
  "acc_with_country df acc_data =
     (let tracking_country =
            map (\<lambda>kg. (fst kg, first_valid recipient_country (snd kg)))
              (groupby tracking_number (filter (\<lambda>r. recipient_country r \<noteq> None) df))
      in map (\<lambda>kg. (col_sum net_amount (snd kg),
                     (case map_of tracking_country (fst kg) of None \<Rightarrow> None | Some c \<Rightarrow> c)))
           (groupby tracking_number acc_data))"

definition accessorial_trends :: "charge_line list \<Rightarrow> accessorial_trend_row list" where
  "accessorial_trends acc_data =
     (let acc_data_with_dates =
            List.map_filter (\<lambda>r. map_option (\<lambda>dt. (strftime_Y_m dt, r)) (shipment_date r)) acc_data
      in if acc_data_with_dates = [] then []
         else sort_values at_period
                (map (\<lambda>kg.
                    \<lparr> at_period = fst kg,
                      at_total_cost = col_sum (\<lambda>lr. net_amount (snd lr)) (snd kg),
                      at_shipment_count = nunique (\<lambda>lr. tracking_number (snd lr)) (snd kg) \<rparr>)
                   (groupby (\<lambda>lr. Some (fst lr)) acc_data_with_dates)))"

definition accessorials_of ::
  "pandas_sort \<Rightarrow> pycountry \<Rightarrow> charge_line list \<Rightarrow> accessorial_analysis" where
  "accessorials_of srt pyc df =
     (if df = [] then no_accessorials
      else
        let acc_data = filter (\<lambda>r. charge_category r = Some ''ACC'') df
        in if acc_data = [] then no_accessorials
           else
             let total_cost = col_sum net_amount acc_data;
                 unique_trackings = nunique tracking_number acc_data
             in \<lparr> aa_summary = Some
                    \<lparr> ac_total_cost = total_cost,
                      ac_charge_count = length acc_data,
                      ac_shipment_count = unique_trackings,
                      ac_residential_cost =
                        col_sum net_amount (filter (\<lambda>r. charge_code r = Some ''RES'') acc_data),
                      ac_surge_cost =
                        col_sum net_amount
                          (filter (\<lambda>r. isin (charge_code r) [''PFR'', ''PFC'']) acc_data),
                      ac_area_surcharge_cost =
                        col_sum net_amount
                          (filter (\<lambda>r. isin (charge_code r) [''RDS'', ''ESD'', ''LDS'', ''HIS'', ''AKS''])
                             acc_data),
                      ac_avg_per_shipment =
                        (if 0 < unique_trackings then total_cost / of_nat unique_trackings else 0) \<rparr>,
                  aa_by_charge_code =
                    sort_values_desc srt cd_total_cost
                      (map (\<lambda>kg.
                          \<lparr> cd_charge_code = fst (fst kg),
                            cd_description = snd (fst kg),
                            cd_total_cost = col_sum net_amount (snd kg),
                            cd_shipment_count = nunique tracking_number (snd kg) \<rparr>)
                         (groupby charge_code_key acc_data)),
                  aa_by_country = country_costs srt pyc snd fst (acc_with_country df acc_data),
                  aa_trends = accessorial_trends acc_data \<rparr>)"

definition analyze_accessorials ::
  "pandas_sort \<Rightarrow> pycountry \<Rightarrow> InvoiceAnalyzer \<Rightarrow> accessorial_analysis \<times> InvoiceAnalyzer" where
  "analyze_accessorials srt pyc self = (accessorials_of srt pyc (data self), self)"

section \<open>analyzer.py: top expenses\<close>

record top_expense_row =
  te_tracking_number :: string
  te_order_reference :: "string option"
  te_shipment_date :: "date option"
  te_recipient_name :: "string option"
  te_recipient_company :: "string option"
  te_recipient_city :: "string option"
  te_recipient_country :: "string option"
  te_sender_name :: "string option"
  te_sender_country :: "string option"
  te_service_name :: "string option"
  te_billed_weight :: rat
  te_goods_description :: "string option"
  te_total_charge :: rat
  te_shipment_type :: "string option"
  te_is_return :: bool

text \<open>
  \<open>nlargest(n, col)\<close> with its default \<open>keep="first"\<close>. This is pandas, not code of the
  repository, and is modelled as the library is documented and known to behave: no row for
  \<open>n \<le> 0\<close>; when \<open>n\<close> is not below the number of rows the whole frame, sorted in
  descending order with the default sort kind; otherwise the \<open>n\<close> greatest rows in descending
  order, rows with equal values in the order of the frame and the earlier ones first.
\<close>

definition keep_first_desc :: "('r \<Rightarrow> rat) \<Rightarrow> 'r list \<Rightarrow> 'r list" where
  "keep_first_desc col rows = rev (sort_key col (rev rows))"

definition nlargest :: "pandas_sort \<Rightarrow> int \<Rightarrow> ('r \<Rightarrow> rat) \<Rightarrow> 'r list \<Rightarrow> 'r list" where
  "nlargest srt n col rows =
     (if n \<le> 0 then []
      else if int (length rows) \<le> n then take (nat n) (sort_values_desc srt col rows)
      else take (nat n) (keep_first_desc col rows))"

text \<open>The columns of \<open>desired_cols\<close>; the shipment table has all of them.\<close>

definition available_cols :: "package \<Rightarrow> top_expense_row" where
  "available_cols p =
     \<lparr> te_tracking_number = p_tracking_number p,
       te_order_reference = p_order_reference p,
       te_shipment_date = p_shipment_date p,
       te_recipient_name = p_recipient_name p,
       te_recipient_company = p_recipient_company p,
       te_recipient_city = p_recipient_city p,
       te_recipient_country = p_recipient_country p,
       te_sender_name = p_sender_name p,
       te_sender_country = p_sender_country p,
       te_service_name = p_service_name p,
       te_billed_weight = p_billed_weight p,
       te_goods_description = p_goods_description p,
       te_total_charge = p_total_charge p,
       te_shipment_type = p_shipment_type p,
       te_is_return = p_is_return p \<rparr>"

definition top_expenses :: "pandas_sort \<Rightarrow> int \<Rightarrow> package list \<Rightarrow> top_expense_row list" where
  "top_expenses srt n pk =
     (if pk = [] then [] else map available_cols (nlargest srt n p_total_charge pk))"

definition get_top_expenses ::
  "pandas_sort \<Rightarrow> int \<Rightarrow> InvoiceAnalyzer \<Rightarrow> top_expense_row list \<times> InvoiceAnalyzer" where
  "get_top_expenses srt n self =
     (case packages self of (pk, self') \<Rightarrow> (top_expenses srt n pk, self'))"

section \<open>analyzer.py: filter\<close>

text \<open>
  The date bounds arrive as strings \<open>YYYY-MM-DD\<close> that pandas parses for the comparison;
  they are given here as the dates they denote, \<open>None\<close> for an argument that is \<open>None\<close> or
  empty (both false for \<open>if start_date:\<close>). A comparison with a missing date (\<open>NaT\<close>) is
  false. An empty list of countries or services is false as well.
\<close>

definition filter_rows ::
  "date option \<Rightarrow> date option \<Rightarrow> string list option \<Rightarrow> string list option \<Rightarrow> bool \<Rightarrow>
   charge_line list \<Rightarrow> charge_line list" where
  "filter_rows start_date end_date countries services returns_only df =
     (let filtered = df;
          filtered =
            (case start_date of
               None \<Rightarrow> filtered
             | Some s \<Rightarrow>
                 filter (\<lambda>r. case shipment_date r of None \<Rightarrow> False | Some d \<Rightarrow> s \<le> d) filtered);
          filtered =
            (case end_date of
               None \<Rightarrow> filtered
             | Some e \<Rightarrow>
                 filter (\<lambda>r. case shipment_date r of None \<Rightarrow> False | Some d \<Rightarrow> d \<le> e) filtered);
          filtered =
            (case countries of
               None \<Rightarrow> filtered
             | Some cs \<Rightarrow>
                 if cs = [] then filtered
                 else filter (\<lambda>r. isin (recipient_country r) cs) filtered);
          filtered =
            (case services of
               None \<Rightarrow> filtered
             | Some ss \<Rightarrow>
                 if ss = [] then filtered
                 else filter (\<lambda>r. isin (service_code r) ss) filtered);
          filtered =
            (if returns_only then filter (\<lambda>r. is_return r = True) filtered else filtered)
      in filtered)"

text \<open>The new analyzer and the analyzer the method was called on.\<close>

definition filter_data ::
  "date option \<Rightarrow> date option \<Rightarrow> string list option \<Rightarrow> string list option \<Rightarrow> bool \<Rightarrow>
   InvoiceAnalyzer \<Rightarrow> InvoiceAnalyzer \<times> InvoiceAnalyzer" where
  "filter_data start_date end_date countries services returns_only self =
     (new_analyzer (filter_rows start_date end_date countries services returns_only (data self)),
      self)"

section \<open>Notions used to state the properties\<close>

text \<open>A charge line whose tracking number has a row in the shipment table.\<close>

definition in_shipment_table :: "charge_line list \<Rightarrow> charge_line \<Rightarrow> bool" where
  "in_shipment_table df r = isin (tracking_number r) (map p_tracking_number (aggregate_packages df))"

text \<open>
  The cache of an analyzer is empty or holds the shipment table of its frame. A new
  analyzer has an empty cache and only the property \<open>packages\<close> writes it, so this holds
  of every analyzer a program gets.
\<close>

definition cache_ok :: "InvoiceAnalyzer \<Rightarrow> bool" where
  "cache_ok self =
     (cached_packages self = None \<or> cached_packages self = Some (aggregate_packages (data self)))"

text \<open>
  What a method may do to the analyzer it is called on: nothing, or fill the empty cache
  with the shipment table of the frame.
\<close>

definition fills_cache_only :: "InvoiceAnalyzer \<Rightarrow> InvoiceAnalyzer \<Rightarrow> bool" where
  "fills_cache_only self self' =
     (self' = self \<or>
      (cached_packages self = None \<and>
       self' = self\<lparr>cached_packages := Some (aggregate_packages (data self))\<rparr>))"

text \<open>
  The buckets as the specification words them, left-closed: \<open>[0,0.5)\<close>, \<open>[0.5,1)\<close>, \<open>[1,2)\<close>,
  \<open>[2,5)\<close>, \<open>[5,10)\<close>, \<open>[10,20)\<close>, \<open>[20,50)\<close>, \<open>[50,\<infinity>)\<close>.
\<close>

definition spec_weight_bucket :: "rat \<Rightarrow> nat option" where
  "spec_weight_bucket x =
     (if x < 0 then None
      else if x < 1 / 2 then Some 0
      else if x < 1 then Some 1
      else if x < 2 then Some 2
      else if x < 5 then Some 3
      else if x < 10 then Some 4
      else if x < 20 then Some 5
      else if x < 50 then Some 6
      else Some 7)"

text \<open>The shipments of a shipment table whose date has a given period label.\<close>

definition in_period :: "string \<Rightarrow> string \<Rightarrow> package list \<Rightarrow> package list" where
  "in_period period label pk =
     filter (\<lambda>p. map_option (period_label period) (p_shipment_date p) = Some label) pk"

text \<open>
  The number of returns that \<open>analyze_returns\<close> reports: \<open>total_returns\<close> of its summary, and
  none when the summary is the empty dictionary.
\<close>

definition reported_returns :: "returns_analysis \<Rightarrow> nat" where
  "reported_returns res = (case ra_summary res of None \<Rightarrow> 0 | Some s \<Rightarrow> r_total_returns s)"

text \<open>The descriptor rows of one tracking number agree on the return flag.\<close>

definition return_flags_agree :: "charge_line list \<Rightarrow> bool" where
  "return_flags_agree df =
     (\<forall>r\<in>set (descriptor_rows df). \<forall>r'\<in>set (descriptor_rows df).
        tracking_number r = tracking_number r' \<longrightarrow> is_return r = is_return r')"

text \<open>
  The return rows take their descriptor rows from the same kind of rows as the whole frame:
  the frame has no freight package line, or a freight package line that is a return, or no
  package line that is a return.
\<close>

definition same_descriptor_kind :: "charge_line list \<Rightarrow> bool" where
  "same_descriptor_kind df =
     (frt_rows df = [] \<or> frt_rows (filter is_return df) \<noteq> []
      \<or> pkg_rows (filter is_return df) = [])"

section \<open>Example frames\<close>

text \<open>Rows are written as the parser produces them: a converted line, then the derived fields.\<close>

definition blank_line :: converted_line where
  "blank_line =
     \<lparr> invoice_date = None, invoice_number = None, currency = None, shipment_date = None,
       order_reference = None, package_indicator = None, tracking_number = None,
       actual_weight = 0, billed_weight = 0, service_code = None, shipment_type = None,
       shipment_subtype = None, charge_category = None, charge_code = None,
       charge_description = None, discount_amount = 0, net_amount = 0, sender_name = None,
       sender_city = None, sender_country = None, recipient_name = None,
       recipient_company = None, recipient_city = None, recipient_country = None,
       goods_description = None, source_file = ''uploaded'' \<rparr>"

text \<open>A freight package line of shipment 1Z999, and an accessorial charge line of the same shipment.\<close>

definition ex_freight :: charge_line where
  "ex_freight = add_derived_fields_row
     (blank_line\<lparr> tracking_number := Some ''1Z999'', package_indicator := Some ''1'',
         charge_category := Some ''FRT'', charge_description := Some ''TB Standard'',
         net_amount := 10 \<rparr>)"

definition ex_accessorial :: charge_line where
  "ex_accessorial = add_derived_fields_row
     (blank_line\<lparr> tracking_number := Some ''1Z999'', package_indicator := Some ''0'',
         charge_category := Some ''ACC'', net_amount := 7 / 2 \<rparr>)"

text \<open>A charge line of a shipment 1Z555 that has no package line.\<close>

definition ex_charge_only :: charge_line where
  "ex_charge_only = add_derived_fields_row
     (blank_line\<lparr> tracking_number := Some ''1Z555'', package_indicator := Some ''0'',
         charge_category := Some ''ACC'', net_amount := 7 / 2 \<rparr>)"

text \<open>
  The freight package line of a shipment: tracking number, net amount, shipment date,
  actual and billed weight, shipment type.
\<close>

definition freight_line ::
  "string \<Rightarrow> rat \<Rightarrow> date option \<Rightarrow> rat \<Rightarrow> rat \<Rightarrow> string option \<Rightarrow> charge_line" where
  "freight_line tracking amount shipped actual billed kind = add_derived_fields_row
     (blank_line\<lparr> tracking_number := Some tracking, package_indicator := Some ''1'',
         charge_category := Some ''FRT'', charge_description := Some ''TB Standard'',
         net_amount := amount, shipment_date := shipped, actual_weight := actual,
         billed_weight := billed, shipment_type := kind \<rparr>)"

text \<open>Three shipments, the first and the third with the same total.\<close>

definition ex_three_shipments :: "charge_line list" where
  "ex_three_shipments =
     [freight_line ''1Z001'' 9 None 1 1 None,
      freight_line ''1Z002'' 5 None 1 1 None,
      freight_line ''1Z003'' 9 None 1 1 None]"

text \<open>Four shipments, the first two with one total and the last two with a greater one.\<close>

definition ex_ties :: "charge_line list" where
  "ex_ties =
     [freight_line ''1Z001'' 5 None 1 1 None,
      freight_line ''1Z002'' 5 None 1 1 None,
      freight_line ''1Z003'' 9 None 1 1 None,
      freight_line ''1Z004'' 9 None 1 1 None]"

text \<open>A shipment with a date and one without.\<close>

definition ex_dated_and_undated :: "charge_line list" where
  "ex_dated_and_undated =
     [freight_line ''1Z001'' 9 (Some (2024, 3, 5)) 1 1 None,
      freight_line ''1Z002'' 5 None 1 1 None]"

text \<open>Freight rows before the derived fields: described, not described, blank with an unknown code.\<close>

definition ex_described :: converted_line where
  "ex_described =
     blank_line\<lparr> charge_category := Some ''FRT'', charge_description := Some ''WW Express Saver'',
       service_code := Some ''704'' \<rparr>"

definition ex_no_description :: converted_line where
  "ex_no_description =
     blank_line\<lparr> charge_category := Some ''FRT'', service_code := Some ''704'' \<rparr>"

definition ex_unknown_code :: converted_line where
  "ex_unknown_code =
     blank_line\<lparr> charge_category := Some ''FRT'', charge_description := Some '' '',
       service_code := Some ''999'' \<rparr>"

text \<open>The analyzer of the two charge lines of shipment 1Z999, new and after a first use.\<close>

definition ex_new_analyzer :: InvoiceAnalyzer where
  "ex_new_analyzer = new_analyzer [ex_freight, ex_accessorial]"

definition ex_used_analyzer :: InvoiceAnalyzer where
  "ex_used_analyzer = snd (packages ex_new_analyzer)"

text \<open>A shipment billed at half a kilogram, and a shipment that weighs 1 kg and is billed at 0 kg.\<close>

definition ex_half_kilo :: "charge_line list" where
  "ex_half_kilo = [freight_line ''1Z001'' 9 None (1 / 2) (1 / 2) None]"

definition ex_unbilled :: "charge_line list" where
  "ex_unbilled = [freight_line ''1Z001'' 9 None 1 0 None]"

text \<open>Shipments billed at 0.5 kg, at 3 kg and (weighing 1 kg) at 0 kg.\<close>

definition ex_weights :: "charge_line list" where
  "ex_weights =
     [freight_line ''1Z001'' 9 None (1 / 2) (1 / 2) None,
      freight_line ''1Z002'' 5 None 2 3 None,
      freight_line ''1Z003'' 4 None 1 0 None]"

text \<open>
  Shipments of Thursday 2020-12-31, Friday 2021-01-01 and Sunday 2021-01-03, and one
  without date.
\<close>

definition ex_year_end :: "charge_line list" where
  "ex_year_end =
     [freight_line ''1Z001'' 9 (Some (2020, 12, 31)) 1 1 None,
      freight_line ''1Z002'' 5 (Some (2021, 1, 1)) 1 2 None,
      freight_line ''1Z003'' 4 None 1 1 None,
      freight_line ''1Z004'' (9 / 4) (Some (2021, 1, 3)) 1 1 None]"

text \<open>
  A line that is not the freight package line: tracking number, package indicator, charge
  category, net amount, shipment type.
\<close>

definition other_line ::
  "string \<Rightarrow> string \<Rightarrow> string \<Rightarrow> rat \<Rightarrow> string option \<Rightarrow> charge_line" where
  "other_line tracking indicator category amount kind = add_derived_fields_row
     (blank_line\<lparr> tracking_number := Some tracking, package_indicator := Some indicator,
         charge_category := Some category, net_amount := amount, shipment_type := kind \<rparr>)"

text \<open>An outbound shipment and a return with its fuel surcharge.\<close>

definition ex_returns :: "charge_line list" where
  "ex_returns =
     [freight_line ''1Z001'' 9 None 1 1 None,
      freight_line ''1Z002'' 5 None 1 1 (Some ''RTN''),
      other_line ''1Z002'' ''0'' ''FSC'' 1 (Some ''RTN'')]"

text \<open>An outbound shipment, and a return whose only package line is an accessorial line.\<close>

definition ex_return_without_freight :: "charge_line list" where
  "ex_return_without_freight =
     [freight_line ''1Z001'' 9 None 1 1 None,
      other_line ''1Z002'' ''1'' ''ACC'' 4 (Some ''RTN'')]"

text \<open>
  A shipment 1Z001 with an outbound freight line followed by a return freight line, and a
  return 1Z002.
\<close>

definition ex_mixed_flags :: "charge_line list" where
  "ex_mixed_flags =
     [freight_line ''1Z001'' 9 None 1 1 None,
      freight_line ''1Z001'' 3 None 1 1 (Some ''RTN''),
      freight_line ''1Z002'' 5 None 1 1 (Some ''RTN'')]"

section \<open>Properties of the frame operations\<close>

lemmas row_defs = blank_line_def add_derived_fields_row_def
  converted_line.defs charge_line.defs shipment_info.defs package.defs

lemmas frame_defs = aggregate_packages_def frt_rows_def pkg_rows_def shipment_info_of_def
  groupby_def group_keys_def group_rows_def agg_first_def first_valid_def charge_totals_def
  merge_left_def col_sum_def descriptor_rows_def isin_def sort_values_desc_def
  sort_counts_desc_def take_rows_def stable_sort_def stable_order_def reversing_sort_def
  reversing_order_def sort_values_def

lemma map_filter_all_Some:
  "(\<And>x. x \<in> set xs \<Longrightarrow> g x = Some (h x)) \<Longrightarrow> List.map_filter g xs = map h xs"
  by (induction xs) simp_all

lemma set_map_filter: "set (List.map_filter f xs) = {y. \<exists>x\<in>set xs. f x = Some y}"
  by (induction xs) (auto split: option.splits)

lemma map_filter_map: "List.map_filter f (map g xs) = List.map_filter (f \<circ> g) xs"
  by (induction xs) (simp_all split: option.split)

lemma set_group_keys: "set (group_keys key rows) = {k. \<exists>r\<in>set rows. key r = Some k}"
  by (simp add: group_keys_def set_map_filter)

lemma distinct_group_keys: "distinct (group_keys key rows)"
  by (simp add: group_keys_def)

lemma sorted_group_keys: "sorted (group_keys key rows)"
  by (simp add: group_keys_def)

lemma group_keys_Nil [simp]: "group_keys key [] = []"
  by (simp add: group_keys_def)

lemma group_rows_nonempty:
  "k \<in> set (group_keys key rows) \<Longrightarrow> group_rows key k rows \<noteq> []"
  by (auto simp: set_group_keys group_rows_def filter_empty_conv)

text \<open>Adding the sums of the groups of distinct keys adds the rows that have one of the keys.\<close>

lemma sum_list_indicator:
  "distinct ks \<Longrightarrow>
   sum_list (map (\<lambda>k. if a = k then (c::rat) else 0) ks) = (if a \<in> set ks then c else 0)"
  by (induction ks) auto

lemma sum_groups:
  fixes f :: "'r \<Rightarrow> rat"
  assumes "distinct ks"
  shows "sum_list (map (\<lambda>k. col_sum f (group_rows key k rows)) ks)
       = col_sum f (filter (\<lambda>r. \<exists>k\<in>set ks. key r = Some k) rows)"
proof (induction rows)
  case Nil
  then show ?case by (simp add: col_sum_def group_rows_def)
next
  case (Cons r rows)
  have "sum_list (map (\<lambda>k. col_sum f (group_rows key k (r # rows))) ks)
      = sum_list (map (\<lambda>k. (if key r = Some k then f r else 0)
                             + col_sum f (group_rows key k rows)) ks)"
    by (rule arg_cong[where f=sum_list]) (simp add: col_sum_def group_rows_def)
  also have "\<dots> = sum_list (map (\<lambda>k. if key r = Some k then f r else 0) ks)
                  + sum_list (map (\<lambda>k. col_sum f (group_rows key k rows)) ks)"
    by (simp add: sum_list_addf)
  also have "sum_list (map (\<lambda>k. if key r = Some k then f r else 0) ks)
           = (if \<exists>k\<in>set ks. key r = Some k then f r else 0)"
  proof (cases "key r")
    case None
    then show ?thesis by simp
  next
    case (Some a)
    then show ?thesis using sum_list_indicator[OF assms, of a "f r"] by auto
  qed
  finally show ?case using Cons.IH by (simp add: col_sum_def)
qed

lemma sum_all_groups:
  "sum_list (map (\<lambda>kg. col_sum f (snd kg)) (groupby key rows))
     = col_sum f (filter (\<lambda>r. key r \<noteq> None) rows)"
proof -
  have "sum_list (map (\<lambda>kg. col_sum f (snd kg)) (groupby key rows))
      = sum_list (map (\<lambda>k. col_sum f (group_rows key k rows)) (group_keys key rows))"
    by (simp add: groupby_def comp_def)
  also have "\<dots> = col_sum f (filter (\<lambda>r. \<exists>k\<in>set (group_keys key rows). key r = Some k) rows)"
    by (rule sum_groups) (rule distinct_group_keys)
  also have "filter (\<lambda>r. \<exists>k\<in>set (group_keys key rows). key r = Some k) rows
           = filter (\<lambda>r. key r \<noteq> None) rows"
    by (rule filter_cong) (auto simp: set_group_keys)
  finally show ?thesis .
qed

section \<open>Properties of the descending sorts\<close>

lemma distinct_map_insort_key:
  "distinct (map g (insort_key f x xs)) \<longleftrightarrow> g x \<notin> g ` set xs \<and> distinct (map g xs)"
  by (induction xs) (auto simp: set_insort_key)

lemma distinct_map_sort_key: "distinct (map g (sort_key f xs)) \<longleftrightarrow> distinct (map g xs)"
  by (induction xs) (simp_all add: distinct_map_insort_key)

lemma enumerate_key: "p \<in> set (enumerate 0 ks) \<Longrightarrow> ks ! fst p = snd p"
  by (simp add: in_set_enumerate_eq)

lemma descending_stable_order: "descending_order stable_order"
  unfolding descending_order_def
proof (intro allI conjI)
  fix ks :: "'a list"
  let ?s = "rev (sort_key snd (rev (enumerate 0 ks)))"
  show "distinct (stable_order ks)"
    by (simp add: stable_order_def distinct_map_sort_key rev_map[symmetric] del: rev_map)
  have "set (stable_order ks) = fst ` set (enumerate 0 ks)"
    by (simp add: stable_order_def)
  also have "\<dots> = {..<length ks}"
    by (subst list.set_map[symmetric]) (simp add: lessThan_atLeast0)
  finally show "set (stable_order ks) = {..<length ks}" .
  have "map (\<lambda>i. ks ! i) (stable_order ks) = map snd ?s"
    by (auto simp: stable_order_def dest: enumerate_key)
  moreover have "sorted_wrt (\<ge>) (map snd ?s)"
    by (simp add: sorted_wrt_rev rev_map[symmetric] del: rev_map)
  ultimately show "sorted_wrt (\<ge>) (map (\<lambda>i. ks ! i) (stable_order ks))"
    by simp
qed

lemma descending_reversing_order: "descending_order reversing_order"
  unfolding descending_order_def
proof (intro allI conjI)
  fix ks :: "'a list"
  let ?s = "rev (sort_key snd (enumerate 0 ks))"
  show "distinct (reversing_order ks)"
    by (simp add: reversing_order_def distinct_map_sort_key rev_map[symmetric] del: rev_map)
  have "set (reversing_order ks) = fst ` set (enumerate 0 ks)"
    by (simp add: reversing_order_def)
  also have "\<dots> = {..<length ks}"
    by (subst list.set_map[symmetric]) (simp add: lessThan_atLeast0)
  finally show "set (reversing_order ks) = {..<length ks}" .
  have "map (\<lambda>i. ks ! i) (reversing_order ks) = map snd ?s"
    by (auto simp: reversing_order_def dest: enumerate_key)
  moreover have "sorted_wrt (\<ge>) (map snd ?s)"
    by (simp add: sorted_wrt_rev rev_map[symmetric] del: rev_map)
  ultimately show "sorted_wrt (\<ge>) (map (\<lambda>i. ks ! i) (reversing_order ks))"
    by simp
qed

lemma sorts_descending_stable: "sorts_descending stable_sort"
  by (simp add: sorts_descending_def stable_sort_def descending_stable_order)

lemma sorts_descending_reversing: "sorts_descending reversing_sort"
  by (simp add: sorts_descending_def reversing_sort_def descending_reversing_order)

lemma take_rows_Nil [simp]: "take_rows [] idx = []"
  by (induction idx) (simp_all add: take_rows_def)

lemma take_rows_map:
  "set idx \<subseteq> {..<length rows} \<Longrightarrow> take_rows rows idx = map (\<lambda>i. rows ! i) idx"
  unfolding take_rows_def by (rule map_filter_all_Some) auto

lemma take_rows_order:
  assumes "descending_order order"
  shows "take_rows rows (order (map col rows)) = map (\<lambda>i. rows ! i) (order (map col rows))"
    and "distinct (order (map col rows))"
    and "set (order (map col rows)) = {..<length rows}"
    and "sorted_wrt (\<ge>) (map col (take_rows rows (order (map col rows))))"
proof -
  let ?idx = "order (map col rows)"
  from assms have d: "distinct ?idx" and s: "set ?idx = {..<length rows}"
    and o: "sorted_wrt (\<ge>) (map (\<lambda>i. map col rows ! i) ?idx)"
    unfolding descending_order_def by (simp_all del: map_map)
  show t: "take_rows rows ?idx = map (\<lambda>i. rows ! i) ?idx"
    using s by (intro take_rows_map) simp
  show "distinct ?idx" by (rule d)
  show "set ?idx = {..<length rows}" by (rule s)
  have "map col (map (\<lambda>i. rows ! i) ?idx) = map (\<lambda>i. map col rows ! i) ?idx"
    using s by auto
  with o show "sorted_wrt (\<ge>) (map col (take_rows rows ?idx))"
    unfolding t by (simp only:)
qed

lemma set_rows_at:
  assumes "set idx = {..<length rows}"
  shows "set (map (\<lambda>i. rows ! i) idx) = set rows"
proof -
  have "set (map (\<lambda>i. rows ! i) idx) = (\<lambda>i. rows ! i) ` {..<length rows}"
    using assms by simp
  also have "\<dots> = set rows"
    by (auto simp: in_set_conv_nth)
  finally show ?thesis .
qed

lemma sum_rows_at:
  fixes f :: "'r \<Rightarrow> rat"
  assumes "distinct idx" and "set idx = {..<length rows}"
  shows "sum_list (map f (map (\<lambda>i. rows ! i) idx)) = sum_list (map f rows)"
proof -
  have "sum_list (map f (map (\<lambda>i. rows ! i) idx)) = (\<Sum>i\<in>set idx. f (rows ! i))"
    using assms(1) by (simp add: comp_def sum_list_distinct_conv_sum_set)
  also have "\<dots> = (\<Sum>i = 0..<length rows. map f rows ! i)"
    using assms(2) by (simp add: lessThan_atLeast0)
  also have "\<dots> = sum_list (map f rows)"
    using sum_list_sum_nth[of "map f rows"] by simp
  finally show ?thesis .
qed

lemma distinct_rows_at:
  assumes "distinct idx" and "set idx = {..<length rows}" and "distinct (map g rows)"
  shows "distinct (map g (map (\<lambda>i. rows ! i) idx))"
proof -
  have lt: "i < length rows" if "i \<in> set idx" for i
    using that assms(2) by simp
  have "map g (map (\<lambda>i. rows ! i) idx) = map (\<lambda>i. map g rows ! i) idx"
    by (simp add: lt)
  moreover have "inj_on (\<lambda>i. map g rows ! i) (set idx)"
  proof (rule inj_onI)
    fix i j assume "i \<in> set idx" "j \<in> set idx" and eq: "map g rows ! i = map g rows ! j"
    then have "i < length (map g rows)" "j < length (map g rows)"
      by (simp_all add: lt)
    with eq assms(3) show "i = j"
      by (simp only: nth_eq_iff_index_eq)
  qed
  ultimately show ?thesis using assms(1) by (simp only: distinct_map)
qed

text \<open>The descending sort with any sort kind: a permutation of the rows in descending order.\<close>

lemma sort_values_desc_props:
  assumes "descending_order (order_float srt)"
  shows "set (sort_values_desc srt col rows) = set rows"
    and "length (sort_values_desc srt col rows) = length rows"
    and "sorted_wrt (\<ge>) (map col (sort_values_desc srt col rows))"
    and "col_sum f (sort_values_desc srt col rows) = col_sum f rows"
    and "distinct (map g rows) \<Longrightarrow> distinct (map g (sort_values_desc srt col rows))"
proof -
  note o = take_rows_order[OF assms, where rows = rows and col = col]
  show "set (sort_values_desc srt col rows) = set rows"
    using set_rows_at[OF o(3)] by (simp add: sort_values_desc_def o(1))
  have "length (order_float srt (map col rows)) = card {..<length rows}"
    using distinct_card[OF o(2)] by (simp only: o(3))
  then show "length (sort_values_desc srt col rows) = length rows"
    by (simp add: sort_values_desc_def o(1))
  show "sorted_wrt (\<ge>) (map col (sort_values_desc srt col rows))"
    using o(4) by (simp add: sort_values_desc_def)
  show "col_sum f (sort_values_desc srt col rows) = col_sum f rows"
    using sum_rows_at[OF o(2,3)] by (simp add: sort_values_desc_def o(1) col_sum_def)
  show "distinct (map g rows) \<Longrightarrow> distinct (map g (sort_values_desc srt col rows))"
    using distinct_rows_at[OF o(2,3)] by (simp add: sort_values_desc_def o(1))
qed

lemma sort_values_desc_Nil [simp]: "sort_values_desc srt col [] = []"
  by (simp add: sort_values_desc_def)

text \<open>The selection of \<open>nlargest\<close>: a permutation in descending order that keeps ties in place.\<close>

lemma keep_first_desc_length [simp]: "length (keep_first_desc f xs) = length xs"
  by (simp add: keep_first_desc_def)

lemma keep_first_desc_set [simp]: "set (keep_first_desc f xs) = set xs"
  by (simp add: keep_first_desc_def)

lemma keep_first_desc_sorted: "sorted_wrt (\<ge>) (map f (keep_first_desc f xs))"
proof -
  have "sorted_wrt (\<le>) (map f (sort_key f (rev xs)))"
    by simp
  then show ?thesis
    by (simp add: keep_first_desc_def sorted_wrt_rev rev_map[symmetric] del: rev_map)
qed

lemma keep_first_desc_stable:
  "filter (\<lambda>y. f y = c) (keep_first_desc f xs) = filter (\<lambda>y. f y = c) xs"
  by (simp add: keep_first_desc_def rev_filter[symmetric] sort_key_stable)

lemma keep_first_desc_distinct:
  "distinct (map g (keep_first_desc f xs)) \<longleftrightarrow> distinct (map g xs)"
  by (simp add: keep_first_desc_def distinct_map_sort_key rev_map[symmetric] del: rev_map)

text \<open>
  What \<open>nlargest\<close> returns for \<open>n \<ge> 0\<close>: the first \<open>n\<close> rows of a permutation of the rows in
  descending order, which keeps the ties in place when \<open>n\<close> is below the number of rows.
\<close>

lemma nlargest_rows:
  assumes "descending_order (order_float srt)" and "0 \<le> n"
  shows "\<exists>xs. nlargest srt n col rows = take (nat n) xs
           \<and> set xs = set rows \<and> length xs = length rows
           \<and> sorted_wrt (\<ge>) (map col xs)
           \<and> (distinct (map g rows) \<longrightarrow> distinct (map g xs))
           \<and> (n < int (length rows) \<longrightarrow>
                (\<forall>c. filter (\<lambda>y. col y = c) xs = filter (\<lambda>y. col y = c) rows))"
proof (cases "int (length rows) \<le> n")
  case True
  note s = sort_values_desc_props[OF assms(1), where col = col and rows = rows]
  have "nlargest srt n col rows = take (nat n) (sort_values_desc srt col rows)"
    using True assms(2) by (simp add: nlargest_def)
  with True s(1,2,3) s(5)[of g] show ?thesis
    by (intro exI[of _ "sort_values_desc srt col rows"]) simp
next
  case False
  then have "nlargest srt n col rows = take (nat n) (keep_first_desc col rows)"
    using assms(2) by (simp add: nlargest_def)
  then show ?thesis
    by (intro exI[of _ "keep_first_desc col rows"])
       (simp add: keep_first_desc_sorted keep_first_desc_stable keep_first_desc_distinct)
qed

lemma take_greatest:
  assumes "sorted_wrt (\<ge>) (map col xs)" and "x \<in> set (take m xs)" and "y \<in> set (drop m xs)"
  shows "col y \<le> col x"
proof -
  have "sorted_wrt (\<ge>) (map col (take m xs) @ map col (drop m xs))"
    using assms(1) by (simp add: map_append[symmetric] del: map_append)
  with assms(2,3) show ?thesis
    by (auto simp: sorted_wrt_append)
qed

section \<open>Properties of the shipment table\<close>

lemma agg_first_the:
  "g \<noteq> [] \<Longrightarrow> agg_first c (k, g) = Some (the (agg_first c (k, g)))"
  by (cases g) (simp_all add: agg_first_def)

lemma agg_first_tracking:
  "g \<noteq> [] \<Longrightarrow> p_tracking_number (the (agg_first c (k, g))) = k"
  by (cases g) (simp_all add: agg_first_def)

lemma shipment_info_of_map:
  "shipment_info_of c rows =
     map (\<lambda>k. the (agg_first c (k, group_rows tracking_number k rows)))
       (group_keys tracking_number rows)"
proof -
  have "List.map_filter (agg_first c) (groupby tracking_number rows)
      = map (\<lambda>kg. the (agg_first c kg)) (groupby tracking_number rows)"
    by (rule map_filter_all_Some)
       (auto simp: groupby_def dest!: group_rows_nonempty intro: agg_first_the)
  then show ?thesis
    by (simp add: shipment_info_of_def groupby_def comp_def)
qed

lemma map_of_charge_totals:
  "k \<in> set (group_keys tracking_number df) \<Longrightarrow>
   map_of (charge_totals df) k =
     Some (col_sum discount_amount (group_rows tracking_number k df),
           col_sum net_amount (group_rows tracking_number k df),
           col_sum total_charge (group_rows tracking_number k df))"
proof -
  have "charge_totals df =
     map (\<lambda>k. (k, col_sum discount_amount (group_rows tracking_number k df),
           col_sum net_amount (group_rows tracking_number k df),
           col_sum total_charge (group_rows tracking_number k df)))
       (group_keys tracking_number df)"
    by (simp add: charge_totals_def groupby_def comp_def)
  then show "k \<in> set (group_keys tracking_number df) \<Longrightarrow> ?thesis"
    by (simp add: map_of_map_restrict)
qed

lemma descriptor_rows_subset: "set (descriptor_rows df) \<subseteq> set df"
  by (auto simp: descriptor_rows_def frt_rows_def pkg_rows_def)

lemma descriptor_keys_subset:
  "set (group_keys tracking_number (descriptor_rows df)) \<subseteq> set (group_keys tracking_number df)"
  using descriptor_rows_subset[of df] by (auto simp: set_group_keys)

lemma descriptor_rows_Nil [simp]: "descriptor_rows [] = []"
  by (simp add: descriptor_rows_def frt_rows_def pkg_rows_def)

text \<open>
  The shipment table row by row: one row per tracking number of the descriptor rows, built
  from the descriptor rows of that number and the sums over all its charge lines. Every
  key finds its totals, so the merge loses no row and fills no total with NaN.
\<close>

lemma aggregate_packages_map:
  "aggregate_packages df =
     map (\<lambda>k. shipment_info.extend
                (the (agg_first
                        (if frt_rows df \<noteq> [] then charge_description
                         else (\<lambda>r. Some (service_name r)))
                        (k, group_rows tracking_number k (descriptor_rows df))))
                (package.fields
                   (col_sum discount_amount (group_rows tracking_number k df))
                   (col_sum net_amount (group_rows tracking_number k df))
                   (col_sum total_charge (group_rows tracking_number k df))))
       (group_keys tracking_number (descriptor_rows df))"
  (is "_ = map ?mk ?keys")
proof (cases "df = []")
  case True
  then show ?thesis by (simp add: aggregate_packages_def)
next
  case False
  let ?c = "if frt_rows df \<noteq> [] then charge_description else (\<lambda>r. Some (service_name r))"
  let ?row = "\<lambda>k. the (agg_first ?c (k, group_rows tracking_number k (descriptor_rows df)))"
  have agg: "aggregate_packages df
      = merge_left (shipment_info_of ?c (descriptor_rows df)) (charge_totals df)"
    using False by (simp add: aggregate_packages_def descriptor_rows_def Let_def)
  have info: "shipment_info_of ?c (descriptor_rows df) = map ?row ?keys"
    by (rule shipment_info_of_map)
  have "merge_left (map ?row ?keys) (charge_totals df) = map ?mk ?keys"
    unfolding merge_left_def map_filter_map
  proof (rule map_filter_all_Some)
    fix k assume k: "k \<in> set ?keys"
    then have ne: "group_rows tracking_number k (descriptor_rows df) \<noteq> []"
      by (rule group_rows_nonempty)
    have "k \<in> set (group_keys tracking_number df)"
      using k descriptor_keys_subset by blast
    then show "((\<lambda>s. case map_of (charge_totals df) (p_tracking_number s) of
               None \<Rightarrow> None
             | Some t \<Rightarrow> Some (shipment_info.extend s
                          (package.fields (fst t) (fst (snd t)) (snd (snd t))))) \<circ> ?row) k
          = Some (?mk k)"
      by (simp add: agg_first_tracking[OF ne] map_of_charge_totals)
  qed
  with agg info show ?thesis by simp
qed

lemma packages_tracking_numbers:
  "map p_tracking_number (aggregate_packages df) = group_keys tracking_number (descriptor_rows df)"
  by (subst aggregate_packages_map)
     (simp add: map_idI shipment_info.defs agg_first_tracking group_rows_nonempty)

lemma packages_total_charge:
  "map p_total_charge (aggregate_packages df) =
     map (\<lambda>k. col_sum total_charge (group_rows tracking_number k df))
       (group_keys tracking_number (descriptor_rows df))"
  by (subst aggregate_packages_map) (simp add: shipment_info.defs package.defs comp_def)

lemma in_shipment_table_iff:
  "in_shipment_table df r \<longleftrightarrow>
     (\<exists>k\<in>set (group_keys tracking_number (descriptor_rows df)). tracking_number r = Some k)"
  by (auto simp: in_shipment_table_def isin_def packages_tracking_numbers split: option.splits)

text \<open>
  With the exact sums of the model, the shipment table adds up the charge lines whose
  tracking number it has, and the cost breakdown those that have a category. The code adds
  float64 values, for which sums of the same amounts taken in different groupings can
  differ in the last digits.
\<close>

lemma shipment_total:
  "col_sum p_total_charge (aggregate_packages df)
     = col_sum total_charge (filter (in_shipment_table df) df)"
proof -
  have "col_sum p_total_charge (aggregate_packages df)
      = sum_list (map (\<lambda>k. col_sum total_charge (group_rows tracking_number k df))
          (group_keys tracking_number (descriptor_rows df)))"
    by (simp add: col_sum_def[of p_total_charge] packages_total_charge)
  also have "\<dots> = col_sum total_charge
      (filter (\<lambda>r. \<exists>k\<in>set (group_keys tracking_number (descriptor_rows df)).
                      tracking_number r = Some k) df)"
    by (rule sum_groups) (rule distinct_group_keys)
  finally show ?thesis by (simp add: in_shipment_table_iff[abs_def])
qed

lemma breakdown_total:
  assumes "descending_order (order_float srt)"
  shows "col_sum cb_total_charge (cost_breakdown srt df)
     = col_sum total_charge (filter (\<lambda>r. charge_category r \<noteq> None) df)"
proof (cases "df = []")
  case True
  then show ?thesis by (simp add: cost_breakdown_def col_sum_def)
next
  case False
  have "col_sum cb_total_charge (cost_breakdown srt df)
      = sum_list (map (\<lambda>kg. col_sum total_charge (snd kg)) (groupby category_key df))"
    using False
    by (simp add: cost_breakdown_def Let_def sort_values_desc_props(4)[OF assms])
       (simp add: col_sum_def[of cb_total_charge] comp_def)
  also have "\<dots> = col_sum total_charge (filter (\<lambda>r. category_key r \<noteq> None) df)"
    by (rule sum_all_groups)
  finally show ?thesis by (simp add: category_key_def)
qed

text \<open>
  The shipment table is computed from the charge lines whose tracking number it has, and
  the cost breakdown from those that have a category: the other lines do not change them.
\<close>

lemma pairs_zip: "map (\<lambda>x. (f x, g x)) xs = zip (map f xs) (map g xs)"
  by (induction xs) simp_all

lemma filter_keys_subset:
  fixes ks :: "'k::linorder list"
  assumes "sorted ks" "distinct ks" "sorted ls" "distinct ls" "set ks \<subseteq> set ls"
  shows "filter (\<lambda>k. k \<in> set ks) ls = ks"
proof (rule sorted_distinct_set_unique)
  show "sorted (filter (\<lambda>k. k \<in> set ks) ls)"
    using assms(3) by (simp add: sorted_wrt_filter)
  show "distinct (filter (\<lambda>k. k \<in> set ks) ls)"
    using assms(4) by simp
  show "set (filter (\<lambda>k. k \<in> set ks) ls) = set ks"
    using assms(5) by auto
qed (use assms in simp_all)

lemma packages_totals_of_charge_totals:
  "map (\<lambda>p. (p_tracking_number p, p_total_charge p)) (aggregate_packages df)
     = filter (\<lambda>kt. fst kt \<in> set (group_keys tracking_number (descriptor_rows df)))
         (map (\<lambda>t. (fst t, snd (snd (snd t)))) (charge_totals df))"
proof -
  let ?K = "group_keys tracking_number (descriptor_rows df)"
  let ?tot = "\<lambda>k. col_sum total_charge (group_rows tracking_number k df)"
  have "map (\<lambda>t. (fst t, snd (snd (snd t)))) (charge_totals df)
      = map (\<lambda>k. (k, ?tot k)) (group_keys tracking_number df)"
    by (simp add: charge_totals_def groupby_def comp_def)
  then have "filter (\<lambda>kt. fst kt \<in> set ?K) (map (\<lambda>t. (fst t, snd (snd (snd t)))) (charge_totals df))
      = map (\<lambda>k. (k, ?tot k)) (filter (\<lambda>k. k \<in> set ?K) (group_keys tracking_number df))"
    by (simp add: filter_map comp_def)
  also have "filter (\<lambda>k. k \<in> set ?K) (group_keys tracking_number df) = ?K"
    by (intro filter_keys_subset sorted_group_keys distinct_group_keys descriptor_keys_subset)
  also have "map (\<lambda>k. (k, ?tot k)) ?K = zip ?K (map ?tot ?K)"
    by (simp add: pairs_zip)
  also have "\<dots> = map (\<lambda>p. (p_tracking_number p, p_total_charge p)) (aggregate_packages df)"
    by (simp add: pairs_zip packages_tracking_numbers packages_total_charge)
  finally show ?thesis by simp
qed

lemma group_keys_filter_present:
  "group_keys key (filter (\<lambda>r. key r \<noteq> None) rows) = group_keys key rows"
proof -
  have "List.map_filter key (filter (\<lambda>r. key r \<noteq> None) rows) = List.map_filter key rows"
    by (induction rows) (auto split: option.splits)
  then show ?thesis by (simp add: group_keys_def)
qed

lemma group_rows_filter:
  "(\<And>r. r \<in> set rows \<Longrightarrow> key r = Some k \<Longrightarrow> P r) \<Longrightarrow>
   group_rows key k (filter P rows) = group_rows key k rows"
  unfolding group_rows_def filter_filter by (rule filter_cong) auto

lemma groupby_filter_present:
  "groupby key (filter (\<lambda>r. key r \<noteq> None) rows) = groupby key rows"
  unfolding groupby_def group_keys_filter_present
  by (rule map_cong[OF refl], rule arg_cong[where f = "Pair _"], rule group_rows_filter) simp

lemma cost_breakdown_ignores_uncategorised:
  "cost_breakdown srt (filter (\<lambda>r. charge_category r \<noteq> None) df) = cost_breakdown srt df"
proof -
  have same: "filter (\<lambda>r. charge_category r \<noteq> None) df = filter (\<lambda>r. category_key r \<noteq> None) df"
    by (simp add: category_key_def)
  have grp: "groupby category_key (filter (\<lambda>r. charge_category r \<noteq> None) df)
      = groupby category_key df"
    unfolding same by (rule groupby_filter_present)
  show ?thesis
  proof (cases "filter (\<lambda>r. charge_category r \<noteq> None) df = []")
    case True
    with grp have "groupby category_key df = []"
      by (simp add: groupby_def)
    with True show ?thesis
      unfolding cost_breakdown_def Let_def by simp
  next
    case False
    then have "df \<noteq> []" by auto
    with False show ?thesis
      unfolding cost_breakdown_def Let_def grp by simp
  qed
qed

lemma covered_descriptor_rows:
  "descriptor_rows (filter (in_shipment_table df) df)
     = filter (in_shipment_table df) (descriptor_rows df)"
proof -
  let ?C = "in_shipment_table df"
  have frt: "frt_rows (filter ?C df) = filter ?C (frt_rows df)"
    unfolding frt_rows_def filter_filter by (rule filter_cong) auto
  have pkg: "pkg_rows (filter ?C df) = filter ?C (pkg_rows df)"
    unfolding pkg_rows_def filter_filter by (rule filter_cong) auto
  show ?thesis
  proof (cases "frt_rows df = []")
    case True
    then show ?thesis by (simp add: descriptor_rows_def frt pkg)
  next
    case frt_ne: False
    show ?thesis
    proof (cases "filter ?C (frt_rows df) = []")
      case False
      with frt_ne show ?thesis by (simp add: descriptor_rows_def frt)
    next
      case True
      have d: "descriptor_rows df = frt_rows df"
        using frt_ne by (simp add: descriptor_rows_def)
      have "\<not> ?C r" for r
      proof
        assume "?C r"
        then obtain k e where "e \<in> set (frt_rows df)" "tracking_number e = Some k"
          unfolding in_shipment_table_iff d by (auto simp: set_group_keys)
        then have "e \<in> set (filter ?C (frt_rows df))"
          unfolding in_shipment_table_iff d by (auto simp: set_group_keys)
        with True show False by simp
      qed
      then have "filter ?C df = []" by (simp add: filter_empty_conv)
      with True show ?thesis by (simp add: d)
    qed
  qed
qed

lemma covered_keys:
  "group_keys tracking_number (filter (in_shipment_table df) (descriptor_rows df))
     = group_keys tracking_number (descriptor_rows df)"
proof (rule sorted_distinct_set_unique)
  show "set (group_keys tracking_number (filter (in_shipment_table df) (descriptor_rows df)))
      = set (group_keys tracking_number (descriptor_rows df))"
    by (auto simp: set_group_keys in_shipment_table_iff)
qed (simp_all add: sorted_group_keys distinct_group_keys)

lemma aggregate_packages_covered:
  "aggregate_packages (filter (in_shipment_table df) df) = aggregate_packages df"
proof -
  let ?C = "in_shipment_table df"
  let ?K = "group_keys tracking_number (descriptor_rows df)"
  have keys: "group_keys tracking_number (descriptor_rows (filter ?C df)) = ?K"
    by (simp add: covered_descriptor_rows covered_keys)
  have rows: "group_rows tracking_number k (filter ?C rows) = group_rows tracking_number k rows"
    if "k \<in> set ?K" for k and rows :: "charge_line list"
    using that by (intro group_rows_filter) (auto simp: in_shipment_table_iff)
  have name: "(frt_rows (filter ?C df) \<noteq> []) = (frt_rows df \<noteq> [])" if "k \<in> set ?K" for k
  proof (cases "frt_rows df = []")
    case True
    then show ?thesis by (simp add: frt_rows_def filter_empty_conv)
  next
    case False
    then have d: "descriptor_rows df = frt_rows df"
      by (simp add: descriptor_rows_def)
    from that obtain e where "e \<in> set (frt_rows df)" "tracking_number e = Some k"
      unfolding d by (auto simp: set_group_keys)
    moreover from this that have "?C e"
      by (auto simp: in_shipment_table_iff)
    ultimately have "e \<in> set (frt_rows (filter ?C df))"
      by (auto simp: frt_rows_def)
    with False show ?thesis by auto
  qed
  show ?thesis
    by (subst (1 2) aggregate_packages_map, unfold keys, rule map_cong)
       (simp_all add: covered_descriptor_rows rows name)
qed

text \<open>The fields of a row of the shipment table.\<close>

lemma aggregate_packages_cases:
  assumes "p \<in> set (aggregate_packages df)"
  shows "\<exists>k r rs. group_rows tracking_number k (descriptor_rows df) = r # rs
           \<and> p_tracking_number p = k
           \<and> p_shipment_date p = first_valid shipment_date (r # rs)
           \<and> p_is_return p = is_return r
           \<and> p_actual_weight p = actual_weight r
           \<and> p_billed_weight p = billed_weight r
           \<and> p_total_charge p = col_sum total_charge (group_rows tracking_number k df)"
proof -
  from assms obtain k where k: "k \<in> set (group_keys tracking_number (descriptor_rows df))"
    and p: "p = shipment_info.extend
                (the (agg_first
                        (if frt_rows df \<noteq> [] then charge_description
                         else (\<lambda>r. Some (service_name r)))
                        (k, group_rows tracking_number k (descriptor_rows df))))
                (package.fields
                   (col_sum discount_amount (group_rows tracking_number k df))
                   (col_sum net_amount (group_rows tracking_number k df))
                   (col_sum total_charge (group_rows tracking_number k df)))"
    by (subst (asm) aggregate_packages_map) auto
  from group_rows_nonempty[OF k] obtain r rs
    where g: "group_rows tracking_number k (descriptor_rows df) = r # rs"
    by (cases "group_rows tracking_number k (descriptor_rows df)") auto
  show ?thesis
    by (rule exI[of _ k], rule exI[of _ r], rule exI[of _ rs])
       (simp add: p g agg_first_def shipment_info.defs package.defs)
qed

lemma distinct_packages: "distinct (map p_tracking_number (aggregate_packages df))"
  by (simp add: packages_tracking_numbers distinct_group_keys)

lemma first_valid_present:
  "rows \<noteq> [] \<Longrightarrow> \<forall>r\<in>set rows. col r \<noteq> None \<Longrightarrow> first_valid col rows \<noteq> None"
  by (cases rows) (auto simp: first_valid_def split: list.splits option.splits)

lemma descriptor_group_subset:
  "set (group_rows tracking_number k (descriptor_rows df)) \<subseteq> set df"
  using descriptor_rows_subset[of df] by (auto simp: group_rows_def)

section \<open>Properties of the analyzer\<close>

lemma packages_frame: "fills_cache_only self (snd (packages self))"
  by (simp add: packages_def fills_cache_only_def Let_def split: option.split)

lemma packages_value: "cache_ok self \<Longrightarrow> fst (packages self) = aggregate_packages (data self)"
  by (auto simp: packages_def cache_ok_def Let_def)

lemma cache_ok_new [simp]: "cache_ok (new_analyzer df)"
  by (simp add: cache_ok_def new_analyzer_def)

lemma data_new [simp]: "data (new_analyzer df) = df"
  by (simp add: new_analyzer_def)

lemma cache_ok_packages: "cache_ok self \<Longrightarrow> cache_ok (snd (packages self))"
  by (auto simp: packages_def cache_ok_def Let_def)

lemmas rollup_defs = get_summary_def analyze_cost_breakdown_def analyze_by_destination_def
  analyze_trends_def analyze_returns_def analyze_weights_def analyze_services_def
  analyze_duties_and_brokerage_def analyze_accessorials_def get_top_expenses_def

lemma fst_case_packages:
  "fst (case packages self of (pk, self') \<Rightarrow> (f pk, self')) = f (fst (packages self))"
  by (simp add: split_beta)

lemma snd_case_packages:
  "snd (case packages self of (pk, self') \<Rightarrow> (f pk, self')) = snd (packages self)"
  by (simp add: split_beta)

lemma filter_rows_nothing [simp]: "filter_rows None None None None False df = df"
  by (simp add: filter_rows_def)

lemma filter_rows_dated:
  assumes "start_date \<noteq> None \<or> end_date \<noteq> None"
    and "r \<in> set (filter_rows start_date end_date countries services returns_only df)"
  shows "shipment_date r \<noteq> None"
  using assms
  by (auto simp: filter_rows_def Let_def split: option.splits if_splits)

lemma filter_rows_subset:
  "set (filter_rows start_date end_date countries services returns_only df) \<subseteq> set df"
  by (auto simp: filter_rows_def Let_def split: option.splits if_splits)

lemma te_fields [simp]:
  "te_total_charge (available_cols p) = p_total_charge p"
  "te_tracking_number (available_cols p) = p_tracking_number p"
  by (simp_all add: available_cols_def)

section \<open>Properties of the parser\<close>

lemma distinct_SERVICE_CODES: "distinct (map fst SERVICE_CODES)"
  by (simp add: SERVICE_CODES_def)

lemma service_name_derived [simp]:
  "service_name (add_derived_fields_row row) = service_name_of row"
  by (simp add: add_derived_fields_row_def converted_line.defs charge_line.defs)

lemma strip_examples: "strip ''WW Express Saver'' = ''WW Express Saver''" "strip '' '' = []"
  by (simp_all add: strip_def isspace_def)

lemmas example_defs = ex_freight_def ex_accessorial_def ex_charge_only_def freight_line_def
  ex_three_shipments_def ex_dated_and_undated_def

section \<open>Properties of the weight buckets\<close>

lemma cut_bins:
  "pd_cut bins x =
     (if x \<le> 0 then None
      else if x \<le> 1 / 2 then Some 0
      else if x \<le> 1 then Some 1
      else if x \<le> 2 then Some 2
      else if x \<le> 5 then Some 3
      else if x \<le> 10 then Some 4
      else if x \<le> 20 then Some 5
      else if x \<le> 50 then Some 6
      else Some 7)"
  by (simp add: pd_cut_def bins_def above_edge_def upto_edge_def)

text \<open>The sizes of the groups of distinct keys add up to the number of rows with one of the keys.\<close>

lemma length_groups:
  assumes "distinct ks"
  shows "sum_list (map (\<lambda>k. length (group_rows key k rows)) ks)
       = length (filter (\<lambda>r. \<exists>k\<in>set ks. key r = Some k) rows)"
proof (induction rows)
  case Nil
  then show ?case by (simp add: group_rows_def)
next
  case (Cons r rows)
  have ind: "sum_list (map (\<lambda>k. if a = k then (1::nat) else 0) ks)
      = (if a \<in> set ks then 1 else 0)" for a
    using assms by (induction ks) auto
  have "sum_list (map (\<lambda>k. length (group_rows key k (r # rows))) ks)
      = sum_list (map (\<lambda>k. (if key r = Some k then 1 else 0)
                             + length (group_rows key k rows)) ks)"
    by (rule arg_cong[where f=sum_list]) (simp add: group_rows_def)
  also have "\<dots> = sum_list (map (\<lambda>k. if key r = Some k then 1 else 0) ks)
                  + sum_list (map (\<lambda>k. length (group_rows key k rows)) ks)"
    by (simp add: sum_list_addf)
  also have "sum_list (map (\<lambda>k. if key r = Some k then (1::nat) else 0) ks)
           = (if \<exists>k\<in>set ks. key r = Some k then 1 else 0)"
  proof (cases "key r")
    case None
    then show ?thesis by simp
  next
    case (Some a)
    then show ?thesis using ind[of a] by auto
  qed
  finally show ?case using Cons.IH by simp
qed

lemma length_all_groups:
  "sum_list (map (\<lambda>kg. length (snd kg)) (groupby key rows))
     = length (filter (\<lambda>r. key r \<noteq> None) rows)"
proof -
  have "sum_list (map (\<lambda>kg. length (snd kg)) (groupby key rows))
      = sum_list (map (\<lambda>k. length (group_rows key k rows)) (group_keys key rows))"
    by (simp add: groupby_def comp_def)
  also have "\<dots> = length (filter (\<lambda>r. \<exists>k\<in>set (group_keys key rows). key r = Some k) rows)"
    by (rule length_groups) (rule distinct_group_keys)
  also have "filter (\<lambda>r. \<exists>k\<in>set (group_keys key rows). key r = Some k) rows
           = filter (\<lambda>r. key r \<noteq> None) rows"
    by (rule filter_cong) (auto simp: set_group_keys)
  finally show ?thesis .
qed

lemma weight_bucket_Some: "(\<exists>i. weight_bucket p = Some i) \<longleftrightarrow> 0 < p_billed_weight p"
  by (simp add: weight_bucket_def cut_bins)

lemma distribution_counts:
  "sum_list (map wd_package_count (weight_distribution weight_data))
     = length (filter (\<lambda>p. 0 < p_billed_weight p) weight_data)"
  by (simp add: weight_distribution_def comp_def length_all_groups weight_bucket_Some)

lemma weights_of_counts:
  "sum_list (map wd_package_count (wa_distribution (weights_of pk)))
     = length (filter (\<lambda>d. 0 < wt_billed_weight d) (wa_detail (weights_of pk)))"
  by (simp add: weights_of_def Let_def distribution_counts filter_map comp_def)

lemmas weights_defs = analyze_weights_def weights_of_def weight_distribution_def labels_def
  weight_bucket_def ex_half_kilo_def ex_unbilled_def ex_weights_def

section \<open>Properties of the trend rollup\<close>

lemmas date_defs = period_label_def strftime_Y_W_def strftime_Y_m_def strftime_Y_m_d_def
  pad2_def pad4_def year_digits_def digit_char_def week_of_year_monday_def weekday_def toordinal_def yday_def
  days_before_year_def days_before_month_def is_leap_def

lemma floor_numeral_div:
  "\<lfloor>numeral a / numeral b :: rat\<rfloor> = numeral a div numeral b"
  using floor_divide_of_int_eq[of "numeral a" "numeral b", where ?'a = rat] by simp

lemma round2_examples: "round2 (9 / 4) = 9 / 4" "round2 9 = 9"
  by (simp_all add: round2_def round_half_even_def Let_def floor_numeral_div)

lemma year_end_labels:
  "period_label ''week'' (2020, 12, 31) = ''2020-W52''"
  "period_label ''week'' (2021, Suc 0, Suc 0) = ''2021-W00''"
  "period_label ''week'' (2021, Suc 0, 3) = ''2021-W00''"
  by (simp_all add: date_defs)

lemma year_end_iso_weeks:
  "iso_week (2020, 12, 31) = (2020, 53)"
  "iso_week (2021, 1, 1) = (2020, 53)"
  "iso_week (2021, 1, 3) = (2020, 53)"
  by (simp_all add: iso_week_def weeks_in_iso_year_def date_defs Let_def)

lemma snd_with_period:
  "map snd (filter (\<lambda>lp. fst lp = k) (with_period period pk)) = in_period period k pk"
  by (induction pk) (auto simp: with_period_def in_period_def split: option.splits)

lemma fst_with_period:
  "fst ` set (with_period period pk)
     = {period_label period d | d. \<exists>p\<in>set pk. p_shipment_date p = Some d}"
  by (force simp: with_period_def set_map_filter)

text \<open>The trend rollup row by row: one row per label, in the order of the labels.\<close>

lemma trends_map:
  "trends period pk =
     map (\<lambda>k. \<lparr> t_period = k,
                 t_package_count = length (in_period period k pk),
                 t_total_cost = col_sum p_total_charge (in_period period k pk),
                 t_total_weight = col_sum p_billed_weight (in_period period k pk),
                 t_avg_cost_per_package =
                   round2 (col_sum p_total_charge (in_period period k pk)
                           / of_nat (length (in_period period k pk))) \<rparr>)
       (group_keys (\<lambda>lp. Some (fst lp)) (with_period period pk))"
  (is "_ = map ?mk ?keys")
proof -
  let ?dated = "with_period period pk"
  have grp: "col_sum (\<lambda>lp. f (snd lp)) (group_rows (\<lambda>lp. Some (fst lp)) k ?dated)
      = col_sum f (in_period period k pk)" for f k
    by (simp add: col_sum_def group_rows_def snd_with_period[symmetric] comp_def)
  have len: "length (group_rows (\<lambda>lp. Some (fst lp)) k ?dated)
      = length (in_period period k pk)" for k
    by (simp add: group_rows_def snd_with_period[symmetric])
  have rows: "map (\<lambda>kg.
                      \<lparr> t_period = fst kg,
                        t_package_count = length (snd kg),
                        t_total_cost = col_sum (\<lambda>lp. p_total_charge (snd lp)) (snd kg),
                        t_total_weight = col_sum (\<lambda>lp. p_billed_weight (snd lp)) (snd kg),
                        t_avg_cost_per_package =
                          round2 (col_sum (\<lambda>lp. p_total_charge (snd lp)) (snd kg)
                                  / of_nat (length (snd kg))) \<rparr>)
                     (groupby (\<lambda>lp. Some (fst lp)) ?dated) = map ?mk ?keys"
    by (simp add: groupby_def comp_def grp len)
  have "sorted (map t_period (map ?mk ?keys))"
    by (simp add: comp_def sorted_group_keys)
  then have srt: "sort_values t_period (map ?mk ?keys) = map ?mk ?keys"
    unfolding sort_values_def by (rule sort_key_id_if_sorted)
  have empty: "?dated = [] \<Longrightarrow> ?keys = []"
    by simp
  have nil: "pk = [] \<Longrightarrow> ?dated = []"
    by (simp add: with_period_def)
  show ?thesis
  proof (cases "pk = [] \<or> ?dated = []")
    case True
    then show ?thesis using empty nil by (auto simp: trends_def Let_def)
  next
    case False
    then show ?thesis by (simp add: trends_def Let_def rows srt)
  qed
qed

section \<open>Properties of the returns\<close>

lemma reported_returns_of:
  "reported_returns (returns_of srt pyc pk) = length (filter p_is_return pk)"
  by (simp add: reported_returns_def returns_of_def no_returns_def Let_def)

lemma filter_rows_returns:
  "r \<in> set (filter_rows start_date end_date countries services True df) \<Longrightarrow> is_return r"
  by (simp add: filter_rows_def Let_def)

lemma filter_rows_returns_only: "filter_rows None None None None True df = filter is_return df"
  by (simp add: filter_rows_def)

lemma packages_is_return:
  "map p_is_return (aggregate_packages df) =
     map (\<lambda>k. is_return (hd (group_rows tracking_number k (descriptor_rows df))))
       (group_keys tracking_number (descriptor_rows df))"
proof -
  have "p_is_return (shipment_info.extend (the (agg_first c (k, g))) more) = is_return (hd g)"
    if "g \<noteq> []" for c k g and more :: "unit package_ext"
    using that by (cases g) (simp_all add: agg_first_def shipment_info.defs)
  then show ?thesis
    by (subst aggregate_packages_map) (simp add: group_rows_nonempty)
qed

lemma descriptor_rows_returns:
  assumes "same_descriptor_kind df"
  shows "descriptor_rows (filter is_return df) = filter is_return (descriptor_rows df)"
proof -
  have frt: "frt_rows (filter is_return df) = filter is_return (frt_rows df)"
    by (auto simp: frt_rows_def intro: filter_cong)
  have pkg: "pkg_rows (filter is_return df) = filter is_return (pkg_rows df)"
    by (auto simp: pkg_rows_def intro: filter_cong)
  show ?thesis
    using assms unfolding same_descriptor_kind_def descriptor_rows_def
    by (auto simp: frt pkg)
qed

lemma hd_group_rows:
  assumes "k \<in> set (group_keys key rows)"
  shows "hd (group_rows key k rows) \<in> set rows \<and> key (hd (group_rows key k rows)) = Some k"
proof -
  from group_rows_nonempty[OF assms] have "hd (group_rows key k rows) \<in> set (group_rows key k rows)"
    by simp
  then show ?thesis by (simp add: group_rows_def)
qed

lemma return_keys:
  assumes "return_flags_agree df"
  shows "filter (\<lambda>k. is_return (hd (group_rows tracking_number k (descriptor_rows df))))
           (group_keys tracking_number (descriptor_rows df))
       = group_keys tracking_number (filter is_return (descriptor_rows df))"
    (is "filter ?ret ?keys = ?rkeys")
proof (rule sorted_distinct_set_unique)
  show "sorted (filter ?ret ?keys)"
    by (simp add: sorted_group_keys sorted_wrt_filter)
  show "distinct (filter ?ret ?keys)"
    by (simp add: distinct_group_keys)
  show "sorted ?rkeys" by (rule sorted_group_keys)
  show "distinct ?rkeys" by (rule distinct_group_keys)
  show "set (filter ?ret ?keys) = set ?rkeys"
  proof (intro set_eqI iffI)
    fix k assume "k \<in> set (filter ?ret ?keys)"
    then have k: "k \<in> set ?keys" and ret: "?ret k" by simp_all
    from hd_group_rows[OF k] ret show "k \<in> set ?rkeys"
      by (auto simp: set_group_keys)
  next
    fix k assume "k \<in> set ?rkeys"
    then obtain r where r: "r \<in> set (descriptor_rows df)" "is_return r" "tracking_number r = Some k"
      by (auto simp: set_group_keys)
    then have k: "k \<in> set ?keys"
      by (auto simp: set_group_keys)
    from hd_group_rows[OF k] r assms have "?ret k"
      unfolding return_flags_agree_def by metis
    with k show "k \<in> set (filter ?ret ?keys)" by simp
  qed
qed

lemmas returns_defs = analyze_returns_def returns_of_def no_returns_def reported_returns_def
  filter_data_def filter_rows_def other_line_def ex_returns_def ex_return_without_freight_def
  ex_mixed_flags_def

section \<open>Claims\<close>




text \<open>
  C4. With no predicate (no dates, no countries, no services, \<open>returns_only\<close> false)
  \<open>filter_data\<close> returns an analyzer on which the summary and every rollup (cost breakdown,
  destinations, trends, returns, weights, services, duties, accessorials, top expenses)
  return what they return on the original analyzer.
\<close>

theorem filter_without_predicates:
  assumes "cache_ok self"
  shows "fst (get_summary srt (fst (filter_data None None None None False self)))
        = fst (get_summary srt self)
    \<and> fst (analyze_cost_breakdown srt (fst (filter_data None None None None False self)))
        = fst (analyze_cost_breakdown srt self)
    \<and> fst (analyze_by_destination srt pyc (fst (filter_data None None None None False self)))
        = fst (analyze_by_destination srt pyc self)
    \<and> fst (analyze_trends period (fst (filter_data None None None None False self)))
        = fst (analyze_trends period self)
    \<and> fst (analyze_returns srt pyc (fst (filter_data None None None None False self)))
        = fst (analyze_returns srt pyc self)
    \<and> fst (analyze_weights (fst (filter_data None None None None False self)))
        = fst (analyze_weights self)
    \<and> fst (analyze_services srt (fst (filter_data None None None None False self)))
        = fst (analyze_services srt self)
    \<and> fst (analyze_duties_and_brokerage srt pyc (fst (filter_data None None None None False self)))
        = fst (analyze_duties_and_brokerage srt pyc self)
    \<and> fst (analyze_accessorials srt pyc (fst (filter_data None None None None False self)))
        = fst (analyze_accessorials srt pyc self)
    \<and> fst (get_top_expenses srt n (fst (filter_data None None None None False self)))
        = fst (get_top_expenses srt n self)"
proof -
  have new: "fst (filter_data None None None None False self) = new_analyzer (data self)"
    by (simp add: filter_data_def)
  have pk: "fst (packages (new_analyzer (data self))) = fst (packages self)"
    using assms by (simp add: packages_value)
  show ?thesis
    unfolding new rollup_defs
    by (simp add: fst_case_packages pk)
qed

text \<open>On the analyzer of shipment 1Z999 whose cache is filled: the same total cost, 13.50.\<close>

theorem filter_without_predicates_witness:
  "cache_ok ex_used_analyzer
   \<and> fst (get_summary stable_sort (fst (filter_data None None None None False ex_used_analyzer)))
       = fst (get_summary stable_sort ex_used_analyzer)
   \<and> fst (get_top_expenses stable_sort 5 (fst (filter_data None None None None False ex_used_analyzer)))
       = fst (get_top_expenses stable_sort 5 ex_used_analyzer)
   \<and> s_total_cost (fst (get_summary stable_sort (fst (filter_data None None None None False ex_used_analyzer))))
       = 27 / 2"
proof -
  have ok: "cache_ok ex_used_analyzer"
    unfolding ex_used_analyzer_def ex_new_analyzer_def by (intro cache_ok_packages cache_ok_new)
  note same = filter_without_predicates[OF ok, of stable_sort None "''week''" 5]
  have "s_total_cost (fst (get_summary stable_sort ex_used_analyzer)) = 27 / 2"
    by (simp add: ex_used_analyzer_def ex_new_analyzer_def get_summary_def packages_def Let_def
          new_analyzer_def summary_of_def example_defs row_defs frame_defs)
  with same ok show ?thesis by simp
qed

text \<open>
  C6. For every parsed row: when the charge category is FRT and the charge description is
  present and not empty after trimming, \<open>service_name\<close> is that description; otherwise it is
  the entry of the service-code table for the row's service code, and \<open>Other\<close> when the
  code is missing or not in the table.
\<close>

theorem service_name_rule:
  "(charge_category row = Some ''FRT'' \<and> charge_description row = Some descr \<and> strip descr \<noteq> []
      \<longrightarrow> service_name (add_derived_fields_row row) = descr)
   \<and> (\<not> (charge_category row = Some ''FRT''
           \<and> (\<exists>d. charge_description row = Some d \<and> strip d \<noteq> []))
      \<longrightarrow> (service_code row = Some code \<and> (code, name) \<in> set SERVICE_CODES
             \<longrightarrow> service_name (add_derived_fields_row row) = name)
        \<and> (service_code row = None
            \<or> (\<exists>c. service_code row = Some c \<and> c \<notin> fst ` set SERVICE_CODES)
             \<longrightarrow> service_name (add_derived_fields_row row) = ''Other''))"
proof -
  have tbl: "(code, name) \<in> set SERVICE_CODES \<Longrightarrow> map_of SERVICE_CODES code = Some name"
    using distinct_SERVICE_CODES by simp
  have miss: "c \<notin> fst ` set SERVICE_CODES \<Longrightarrow> map_of SERVICE_CODES c = None" for c
    by (simp add: map_of_eq_None_iff)
  show ?thesis
    by (auto simp: service_name_of_def dict_get_def tbl miss split: option.splits)
qed

text \<open>
  A described freight row keeps its description; a freight row without description and
  with code 704 is named by the table; a freight row with a blank description and the
  unknown code 999 is named \<open>Other\<close>.
\<close>

theorem service_name_rule_witness:
  "service_name (add_derived_fields_row ex_described) = ''WW Express Saver''
   \<and> service_name (add_derived_fields_row ex_no_description) = ''WW Standard''
   \<and> service_name (add_derived_fields_row ex_unknown_code) = ''Other''"
proof -
  have a: "charge_category ex_described = Some ''FRT''
      \<and> charge_description ex_described = Some ''WW Express Saver''
      \<and> strip ''WW Express Saver'' \<noteq> []"
    by (simp add: ex_described_def blank_line_def strip_examples)
  have b: "\<not> (charge_category ex_no_description = Some ''FRT''
           \<and> (\<exists>d. charge_description ex_no_description = Some d \<and> strip d \<noteq> []))"
      "service_code ex_no_description = Some ''704''
       \<and> (''704'', ''WW Standard'') \<in> set SERVICE_CODES"
    by (simp_all add: ex_no_description_def blank_line_def SERVICE_CODES_def)
  have c: "\<not> (charge_category ex_unknown_code = Some ''FRT''
           \<and> (\<exists>d. charge_description ex_unknown_code = Some d \<and> strip d \<noteq> []))"
      "service_code ex_unknown_code = None
       \<or> (\<exists>c. service_code ex_unknown_code = Some c \<and> c \<notin> fst ` set SERVICE_CODES)"
    by (simp_all add: ex_unknown_code_def blank_line_def SERVICE_CODES_def strip_examples)
  from service_name_rule[of ex_described "''WW Express Saver''"] a
    service_name_rule[of ex_no_description _ "''704''" "''WW Standard''"] b
    service_name_rule[of ex_unknown_code] c
  show ?thesis by blast
qed

text \<open>
  C7 (amended). For \<open>n \<ge> 0\<close> and a library sort that sorts in descending order,
  \<open>get_top_expenses(n)\<close> returns \<open>min(n, shipment count)\<close> rows of the shipment table, in
  descending order of \<open>total_charge\<close>, no tracking number twice; no shipment that is left
  out has a greater \<open>total_charge\<close> than a shipment that is returned. When \<open>n\<close> is below the
  shipment count, the rows with one and the same \<open>total_charge\<close> are, in the order of the
  shipment table, the first of the shipment table with that value.
\<close>

theorem top_expenses_rows:
  assumes "cache_ok self" and "0 \<le> n" and "descending_order (order_float srt)"
  shows "int (length (fst (get_top_expenses srt n self)))
           = min n (int (length (fst (packages self))))
       \<and> sorted_wrt (\<ge>) (map te_total_charge (fst (get_top_expenses srt n self)))
       \<and> distinct (map te_tracking_number (fst (get_top_expenses srt n self)))
       \<and> set (fst (get_top_expenses srt n self)) \<subseteq> available_cols ` set (fst (packages self))
       \<and> (\<forall>p\<in>set (fst (packages self)).
             p_tracking_number p \<notin> te_tracking_number ` set (fst (get_top_expenses srt n self)) \<longrightarrow>
             (\<forall>t\<in>set (fst (get_top_expenses srt n self)). p_total_charge p \<le> te_total_charge t))
       \<and> (n < int (length (fst (packages self))) \<longrightarrow>
            (\<forall>c. prefix (filter (\<lambda>t. te_total_charge t = c) (fst (get_top_expenses srt n self)))
                         (filter (\<lambda>t. te_total_charge t = c)
                            (map available_cols (fst (packages self))))))"
proof -
  let ?pk = "aggregate_packages (data self)"
  from nlargest_rows[OF assms(3) assms(2), where col = p_total_charge and rows = ?pk
      and g = p_tracking_number]
  obtain xs where nl: "nlargest srt n p_total_charge ?pk = take (nat n) xs"
    and xs_set: "set xs = set ?pk"
    and xs_len: "length xs = length ?pk"
    and xs_sorted: "sorted_wrt (\<ge>) (map p_total_charge xs)"
    and xs_distinct: "distinct (map p_tracking_number ?pk) \<longrightarrow> distinct (map p_tracking_number xs)"
    and xs_ties: "n < int (length ?pk) \<longrightarrow>
         (\<forall>c. filter (\<lambda>y. p_total_charge y = c) xs = filter (\<lambda>y. p_total_charge y = c) ?pk)"
    by blast
  let ?top = "take (nat n) xs"
  have pk: "fst (packages self) = ?pk"
    using assms(1) by (rule packages_value)
  have top: "fst (get_top_expenses srt n self) = map available_cols ?top"
  proof (cases "?pk = []")
    case True
    with xs_len show ?thesis
      by (simp add: get_top_expenses_def fst_case_packages pk top_expenses_def)
  next
    case False
    then show ?thesis
      by (simp add: get_top_expenses_def fst_case_packages pk top_expenses_def nl)
  qed
  have len: "int (length ?top) = min n (int (length ?pk))"
    using assms(2) by (simp add: xs_len min_def) linarith
  have srt: "sorted_wrt (\<ge>) (map p_total_charge ?top)"
    using xs_sorted by (simp add: take_map[symmetric] sorted_wrt_take)
  have dst: "distinct (map p_tracking_number ?top)"
    using xs_distinct distinct_packages[of "data self"]
    by (simp add: take_map[symmetric])
  have sub: "set ?top \<subseteq> set ?pk"
    using set_take_subset[of "nat n" xs] by (simp add: xs_set)
  have great: "p_total_charge p \<le> p_total_charge t"
    if "p \<in> set ?pk" and "p_tracking_number p \<notin> p_tracking_number ` set ?top"
      and "t \<in> set ?top" for p t
  proof -
    from that(2) have "p \<notin> set ?top" by blast
    moreover have "set ?pk = set ?top \<union> set (drop (nat n) xs)"
      unfolding xs_set[symmetric] set_append[symmetric] append_take_drop_id ..
    ultimately have "p \<in> set (drop (nat n) xs)"
      using that(1) by blast
    with xs_sorted that(3) show ?thesis by (rule take_greatest)
  qed
  have ties: "prefix (filter (\<lambda>t. te_total_charge t = c) (map available_cols ?top))
               (filter (\<lambda>t. te_total_charge t = c) (map available_cols ?pk))"
    if "n < int (length ?pk)" for c
  proof -
    have "prefix (filter (\<lambda>p. p_total_charge p = c) ?top)
            (filter (\<lambda>p. p_total_charge p = c) xs)"
      by (intro filter_mono_prefix take_is_prefix)
    moreover have "filter (\<lambda>p. p_total_charge p = c) xs = filter (\<lambda>p. p_total_charge p = c) ?pk"
      using xs_ties that by blast
    ultimately have "prefix (filter (\<lambda>p. p_total_charge p = c) ?top)
            (filter (\<lambda>p. p_total_charge p = c) ?pk)"
      by simp
    then show ?thesis
      by (simp add: filter_map comp_def map_mono_prefix)
  qed
  from len srt dst sub great ties show ?thesis
    unfolding top pk by (simp add: comp_def image_image) blast
qed

text \<open>
  Three shipments with totals 9, 5 and 9, and \<open>n = 2\<close>: the two shipments with total 9, in
  the order of the shipment table.
\<close>

theorem top_expenses_rows_witness:
  "cache_ok (new_analyzer ex_three_shipments)
   \<and> (0::int) \<le> 2
   \<and> descending_order (order_float stable_sort)
   \<and> int (length (fst (get_top_expenses stable_sort 2 (new_analyzer ex_three_shipments))))
       = min 2 (int (length (fst (packages (new_analyzer ex_three_shipments)))))
   \<and> map (\<lambda>p. (p_tracking_number p, p_total_charge p))
       (fst (packages (new_analyzer ex_three_shipments)))
       = [(''1Z001'', 9), (''1Z002'', 5), (''1Z003'', 9)]
   \<and> map (\<lambda>t. (te_tracking_number t, te_total_charge t))
       (fst (get_top_expenses stable_sort 2 (new_analyzer ex_three_shipments)))
       = [(''1Z001'', 9), (''1Z003'', 9)]"
proof -
  have n: "(0::int) \<le> 2" by simp
  have d: "descending_order (order_float stable_sort)"
    using sorts_descending_stable by (simp add: sorts_descending_def)
  note rows = top_expenses_rows[OF cache_ok_new n d, of ex_three_shipments]
  have pk: "map (\<lambda>p. (p_tracking_number p, p_total_charge p))
       (fst (packages (new_analyzer ex_three_shipments)))
       = [(''1Z001'', 9), (''1Z002'', 5), (''1Z003'', 9)]"
    by (simp add: packages_def Let_def new_analyzer_def example_defs row_defs frame_defs)
  have top: "map (\<lambda>t. (te_tracking_number t, te_total_charge t))
          (fst (get_top_expenses stable_sort 2 (new_analyzer ex_three_shipments)))
        = [(''1Z001'', 9), (''1Z003'', 9)]"
    by (simp add: get_top_expenses_def top_expenses_def nlargest_def keep_first_desc_def
          packages_def Let_def new_analyzer_def example_defs row_defs frame_defs)
  from rows have "int (length (fst (get_top_expenses stable_sort 2 (new_analyzer ex_three_shipments))))
       = min 2 (int (length (fst (packages (new_analyzer ex_three_shipments)))))"
    by blast
  with n d pk top show ?thesis
    using cache_ok_new by (intro conjI)
qed

text \<open>
  C7 as stated fails for \<open>n\<close> at or above the shipment count, where \<open>nlargest\<close> returns the
  table sorted by the library's default descending sort: with a sort that returns equal
  totals in the reverse of their order in the table, four shipments with totals 5, 5, 9
  and 9 and \<open>n = 4\<close> come back as 1Z004, 1Z003, 1Z002, 1Z001, the ties not in input order.
\<close>

theorem top_expenses_rows_counterexample:
  "descending_order (order_float reversing_sort)
   \<and> map (\<lambda>p. (p_tracking_number p, p_total_charge p)) (fst (packages (new_analyzer ex_ties)))
       = [(''1Z001'', 5), (''1Z002'', 5), (''1Z003'', 9), (''1Z004'', 9)]
   \<and> map (\<lambda>t. (te_tracking_number t, te_total_charge t))
       (fst (get_top_expenses reversing_sort 4 (new_analyzer ex_ties)))
       = [(''1Z004'', 9), (''1Z003'', 9), (''1Z002'', 5), (''1Z001'', 5)]"
proof -
  have d: "descending_order (order_float reversing_sort)"
    using sorts_descending_reversing by (simp add: sorts_descending_def)
  have pk: "map (\<lambda>p. (p_tracking_number p, p_total_charge p)) (fst (packages (new_analyzer ex_ties)))
       = [(''1Z001'', 5), (''1Z002'', 5), (''1Z003'', 9), (''1Z004'', 9)]"
    by (simp add: packages_def Let_def new_analyzer_def ex_ties_def example_defs row_defs
          frame_defs)
  have top: "map (\<lambda>t. (te_tracking_number t, te_total_charge t))
       (fst (get_top_expenses reversing_sort 4 (new_analyzer ex_ties)))
       = [(''1Z004'', 9), (''1Z003'', 9), (''1Z002'', 5), (''1Z001'', 5)]"
    by (simp add: get_top_expenses_def top_expenses_def nlargest_def
          packages_def Let_def new_analyzer_def ex_ties_def example_defs row_defs frame_defs
          enumerate_eq_zip List.map_filter_def)
  from d pk top show ?thesis by (intro conjI)
qed

text \<open>
  C8. Every public method of the analyzer (the summary, the rollups, the top expenses)
  returns the analyzer as it was, frame and cache, or with the empty cache filled with the
  shipment table of its frame; \<open>filter_data\<close> returns the analyzer as it was.
\<close>

theorem methods_frame:
  "fills_cache_only self (snd (get_summary srt self))
   \<and> fills_cache_only self (snd (analyze_cost_breakdown srt self))
   \<and> fills_cache_only self (snd (analyze_by_destination srt pyc self))
   \<and> fills_cache_only self (snd (analyze_trends period self))
   \<and> fills_cache_only self (snd (analyze_returns srt pyc self))
   \<and> fills_cache_only self (snd (analyze_weights self))
   \<and> fills_cache_only self (snd (analyze_services srt self))
   \<and> fills_cache_only self (snd (analyze_duties_and_brokerage srt pyc self))
   \<and> fills_cache_only self (snd (analyze_accessorials srt pyc self))
   \<and> fills_cache_only self (snd (get_top_expenses srt n self))
   \<and> snd (filter_data start_date end_date countries services returns_only self) = self"
  unfolding rollup_defs
  by (simp add: snd_case_packages packages_frame filter_data_def)
     (simp add: fills_cache_only_def)

text \<open>
  The trend rollup on the new analyzer of shipment 1Z999 keeps the frame and fills the
  cache; on the analyzer whose cache is filled it changes nothing.
\<close>

theorem methods_frame_witness:
  "data (snd (analyze_trends ''week'' ex_new_analyzer)) = [ex_freight, ex_accessorial]
   \<and> cached_packages (snd (analyze_trends ''week'' ex_new_analyzer))
       = Some (aggregate_packages [ex_freight, ex_accessorial])
   \<and> snd (analyze_trends ''week'' ex_used_analyzer) = ex_used_analyzer"
proof -
  have new: "data ex_new_analyzer = [ex_freight, ex_accessorial]"
      "cached_packages ex_new_analyzer = None"
    by (simp_all add: ex_new_analyzer_def new_analyzer_def)
  have used: "cached_packages ex_used_analyzer \<noteq> None"
    by (simp add: ex_used_analyzer_def ex_new_analyzer_def packages_def Let_def new_analyzer_def)
  have filled: "cached_packages (snd (analyze_trends ''week'' ex_new_analyzer)) \<noteq> None"
    by (simp add: analyze_trends_def snd_case_packages ex_new_analyzer_def packages_def
          Let_def new_analyzer_def)
  from methods_frame[of ex_new_analyzer stable_sort None "''week''" 0 None None None None False]
  have a: "fills_cache_only ex_new_analyzer (snd (analyze_trends ''week'' ex_new_analyzer))"
    by blast
  from methods_frame[of ex_used_analyzer stable_sort None "''week''" 0 None None None None False]
  have b: "fills_cache_only ex_used_analyzer (snd (analyze_trends ''week'' ex_used_analyzer))"
    by blast
  from a filled new have
    "data (snd (analyze_trends ''week'' ex_new_analyzer)) = [ex_freight, ex_accessorial]
     \<and> cached_packages (snd (analyze_trends ''week'' ex_new_analyzer))
         = Some (aggregate_packages [ex_freight, ex_accessorial])"
    by (auto simp: fills_cache_only_def)
  moreover from b used have "snd (analyze_trends ''week'' ex_used_analyzer) = ex_used_analyzer"
    by (auto simp: fills_cache_only_def)
  ultimately show ?thesis by simp
qed

text \<open>
  C9. When no row of the frame has the shipment subtype IMP,
  \<open>analyze_duties_and_brokerage\<close> returns the result without data: the empty summary and
  the three empty tables (by charge type, by country, detail).
\<close>

theorem duties_without_imports:
  assumes "\<forall>r\<in>set (data self). shipment_subtype r \<noteq> Some ''IMP''"
  shows "fst (analyze_duties_and_brokerage srt pyc self)
           = \<lparr> da_summary = None, da_by_charge_type = [], da_by_country = [], da_detail = [] \<rparr>
         \<and> snd (analyze_duties_and_brokerage srt pyc self) = self"
proof -
  have "filter (\<lambda>r. shipment_subtype r = Some ''IMP'') (data self) = []"
    using assms by (simp add: filter_empty_conv)
  then show ?thesis
    by (simp add: analyze_duties_and_brokerage_def duties_of_def no_duties_def)
qed

theorem duties_without_imports_witness:
  "list_all (\<lambda>r. shipment_subtype r \<noteq> Some ''IMP'') (data ex_new_analyzer)
   \<and> fst (analyze_duties_and_brokerage stable_sort None ex_new_analyzer)
       = \<lparr> da_summary = None, da_by_charge_type = [], da_by_country = [], da_detail = [] \<rparr>"
proof -
  have h: "\<forall>r\<in>set (data ex_new_analyzer). shipment_subtype r \<noteq> Some ''IMP''"
    by (simp add: ex_new_analyzer_def example_defs row_defs)
  from duties_without_imports[OF h, of stable_sort None] h show ?thesis
    by (simp add: list_all_iff)
qed

text \<open>
  C10. When \<open>filter_data\<close> is called with a start date or an end date (an end date alone
  is enough), every charge line of the new analyzer is a charge line of the original that
  has a shipment date, and every row of the new analyzer's shipment table, from which its
  rollups are computed, has a shipment date.
\<close>

theorem date_filter_drops_undated:
  assumes "start_date \<noteq> None \<or> end_date \<noteq> None"
  shows "(\<forall>r\<in>set (data (fst (filter_data start_date end_date countries services returns_only self))).
            r \<in> set (data self) \<and> shipment_date r \<noteq> None)
       \<and> (\<forall>p\<in>set (fst (packages
                 (fst (filter_data start_date end_date countries services returns_only self)))).
            p_shipment_date p \<noteq> None)"
proof -
  let ?df = "filter_rows start_date end_date countries services returns_only (data self)"
  have new: "fst (filter_data start_date end_date countries services returns_only self)
      = new_analyzer ?df"
    by (simp add: filter_data_def)
  have dated: "\<forall>r\<in>set ?df. shipment_date r \<noteq> None"
    using filter_rows_dated[OF assms] by blast
  have "p_shipment_date p \<noteq> None" if "p \<in> set (aggregate_packages ?df)" for p
  proof -
    from aggregate_packages_cases[OF that] obtain k r rs
      where g: "group_rows tracking_number k (descriptor_rows ?df) = r # rs"
        and d: "p_shipment_date p = first_valid shipment_date (r # rs)"
      by blast
    have "set (r # rs) \<subseteq> set ?df"
      using descriptor_group_subset[of k ?df] g by simp
    with dated have "\<forall>x\<in>set (r # rs). shipment_date x \<noteq> None" by blast
    then have "first_valid shipment_date (r # rs) \<noteq> None"
      by (intro first_valid_present) simp_all
    with d show ?thesis by simp
  qed
  moreover have "r \<in> set (data self)" if "r \<in> set ?df" for r
    using that filter_rows_subset by blast
  ultimately show ?thesis
    unfolding new using dated by (simp add: packages_value)
qed

text \<open>
  An end date alone, 2024-12-31, on a shipment of 2024-03-05 and a shipment without date:
  only the dated shipment is left, in the frame and in the shipment table.
\<close>

theorem date_filter_drops_undated_witness:
  "Some (2024, 12, 31) \<noteq> (None :: date option)
   \<and> list_all (\<lambda>r. shipment_date r \<noteq> None)
       (data (fst (filter_data None (Some (2024, 12, 31)) None None False
                     (new_analyzer ex_dated_and_undated))))
   \<and> map tracking_number
       (data (fst (filter_data None (Some (2024, 12, 31)) None None False
                     (new_analyzer ex_dated_and_undated)))) = [Some ''1Z001'']
   \<and> map p_shipment_date
       (fst (packages (fst (filter_data None (Some (2024, 12, 31)) None None False
                             (new_analyzer ex_dated_and_undated))))) = [Some (2024, 3, 5)]"
proof -
  have h: "None \<noteq> (None :: date option) \<or> Some (2024, 12, 31) \<noteq> (None :: date option)"
    by simp
  from date_filter_drops_undated[OF h, of None None False "new_analyzer ex_dated_and_undated"]
  have a: "list_all (\<lambda>r. shipment_date r \<noteq> None)
       (data (fst (filter_data None (Some (2024, 12, 31)) None None False
                     (new_analyzer ex_dated_and_undated))))"
    unfolding list_all_iff by blast
  have b: "map tracking_number
       (data (fst (filter_data None (Some (2024, 12, 31)) None None False
                     (new_analyzer ex_dated_and_undated)))) = [Some ''1Z001'']"
    by (simp add: filter_data_def filter_rows_def new_analyzer_def example_defs row_defs)
  have c: "map p_shipment_date
       (fst (packages (fst (filter_data None (Some (2024, 12, 31)) None None False
                             (new_analyzer ex_dated_and_undated))))) = [Some (2024, 3, 5)]"
    by (simp add: filter_data_def filter_rows_def packages_def Let_def new_analyzer_def
          example_defs row_defs frame_defs)
  from a b c show ?thesis by simp
qed

text \<open>
  C2 (amended). \<open>analyze_weights\<close> puts a billed weight into the right-closed ranges
  \<open>(0,0.5]\<close>, \<open>(0.5,1]\<close>, \<open>(1,2]\<close>, \<open>(2,5]\<close>, \<open>(5,10]\<close>, \<open>(10,20]\<close>, \<open>(20,50]\<close>, \<open>(50,\<infinity>)\<close>. Every
  billed weight above 0 falls into exactly one of the eight buckets, and the bucket counts
  add up to the number of shipments of the weight-filtered subset whose billed weight is
  above 0.
\<close>

theorem weight_buckets:
  "weight_bucket p = pd_cut bins (p_billed_weight p)
   \<and> (pd_cut bins b = Some 0 \<longleftrightarrow> 0 < b \<and> b \<le> 1 / 2)
   \<and> (pd_cut bins b = Some 1 \<longleftrightarrow> 1 / 2 < b \<and> b \<le> 1)
   \<and> (pd_cut bins b = Some 2 \<longleftrightarrow> 1 < b \<and> b \<le> 2)
   \<and> (pd_cut bins b = Some 3 \<longleftrightarrow> 2 < b \<and> b \<le> 5)
   \<and> (pd_cut bins b = Some 4 \<longleftrightarrow> 5 < b \<and> b \<le> 10)
   \<and> (pd_cut bins b = Some 5 \<longleftrightarrow> 10 < b \<and> b \<le> 20)
   \<and> (pd_cut bins b = Some 6 \<longleftrightarrow> 20 < b \<and> b \<le> 50)
   \<and> (pd_cut bins b = Some 7 \<longleftrightarrow> 50 < b)
   \<and> (0 < b \<longrightarrow> (\<exists>!i. i < 8 \<and> pd_cut bins b = Some i))
   \<and> sum_list (map wd_package_count (wa_distribution (fst (analyze_weights self))))
       = length (filter (\<lambda>d. 0 < wt_billed_weight d) (wa_detail (fst (analyze_weights self))))"
proof -
  have "0 < b \<longrightarrow> (\<exists>!i. i < 8 \<and> pd_cut bins b = Some i)"
    by (auto simp: cut_bins)
  moreover have "sum_list (map wd_package_count (wa_distribution (fst (analyze_weights self))))
       = length (filter (\<lambda>d. 0 < wt_billed_weight d) (wa_detail (fst (analyze_weights self))))"
    by (simp add: analyze_weights_def fst_case_packages weights_of_counts)
  ultimately show ?thesis
    by (simp add: weight_bucket_def cut_bins)
qed

text \<open>
  Three shipments billed at 0.5 kg, 3 kg and 0 kg: the first two are counted, in the
  buckets \<open>0-0.5kg\<close> and \<open>2-5kg\<close>.
\<close>

theorem weight_buckets_witness:
  "(0::rat) < 1 / 2
   \<and> (\<exists>!i. i < 8 \<and> pd_cut bins (1 / 2) = Some i)
   \<and> pd_cut bins (1 / 2) = Some 0
   \<and> map (\<lambda>row. (wd_weight_range row, wd_package_count row))
       (wa_distribution (fst (analyze_weights (new_analyzer ex_weights))))
       = [(''0-0.5kg'', 1), (''2-5kg'', 1)]
   \<and> sum_list (map wd_package_count (wa_distribution (fst (analyze_weights (new_analyzer ex_weights)))))
       = length (filter (\<lambda>d. 0 < wt_billed_weight d)
                   (wa_detail (fst (analyze_weights (new_analyzer ex_weights)))))
   \<and> map wt_billed_weight (wa_detail (fst (analyze_weights (new_analyzer ex_weights))))
       = [1 / 2, 3, 0]"
proof -
  have pos: "(0::rat) < 1 / 2" by simp
  note buckets = weight_buckets[of _ "1 / 2" "new_analyzer ex_weights"]
  have rows: "map (\<lambda>row. (wd_weight_range row, wd_package_count row))
       (wa_distribution (fst (analyze_weights (new_analyzer ex_weights))))
       = [(''0-0.5kg'', 1), (''2-5kg'', 1)]"
    by (simp add: weights_defs cut_bins packages_def Let_def new_analyzer_def
          example_defs row_defs frame_defs)
  have detail: "map wt_billed_weight (wa_detail (fst (analyze_weights (new_analyzer ex_weights))))
       = [1 / 2, 3, 0]"
    by (simp add: weights_defs cut_bins packages_def Let_def new_analyzer_def
          example_defs row_defs frame_defs)
  from buckets pos have one: "\<exists>!i. i < 8 \<and> pd_cut bins (1 / 2) = Some i"
    by blast
  from buckets have first: "pd_cut bins (1 / 2) = Some 0"
    by simp
  from buckets have
    "sum_list (map wd_package_count (wa_distribution (fst (analyze_weights (new_analyzer ex_weights)))))
       = length (filter (\<lambda>d. 0 < wt_billed_weight d)
                   (wa_detail (fst (analyze_weights (new_analyzer ex_weights)))))"
    by blast
  with pos one first rows detail show ?thesis
    by (intro conjI)
qed

text \<open>
  C2 as stated fails. A billed weight of 0.5 kg is in the bucket \<open>0-0.5kg\<close>, not in
  \<open>[0.5,1)\<close>; and a shipment of the weight-filtered subset that is billed at 0 kg is in no
  bucket, so the counts do not add up to the size of the subset.
\<close>

theorem weight_buckets_counterexample:
  "map weight_bucket (fst (packages (new_analyzer ex_half_kilo))) = [Some 0]
   \<and> map (\<lambda>p. spec_weight_bucket (p_billed_weight p)) (fst (packages (new_analyzer ex_half_kilo)))
       = [Some 1]
   \<and> map wd_weight_range (wa_distribution (fst (analyze_weights (new_analyzer ex_half_kilo))))
       = [''0-0.5kg'']
   \<and> map wt_billed_weight (wa_detail (fst (analyze_weights (new_analyzer ex_unbilled)))) = [0]
   \<and> wa_distribution (fst (analyze_weights (new_analyzer ex_unbilled))) = []"
  by (simp add: weights_defs cut_bins spec_weight_bucket_def packages_def Let_def
        new_analyzer_def example_defs row_defs frame_defs)

text \<open>
  C3. \<open>analyze_trends\<close> with the period \<open>week\<close> does not bucket by ISO week. The shipments
  of 2020-12-31, 2021-01-01 and 2021-01-03 are of one ISO week, week 53 of 2020, which is
  also the week that the parser's column \<open>shipment_week\<close> gives them; the rollup labels the
  week with \<open>%Y-W%W\<close> and puts them into two buckets, \<open>2020-W52\<close> and \<open>2021-W00\<close>, the second
  a week 00 that no ISO year has. The shipment without date is in no bucket.
\<close>

theorem trends_week_not_iso:
  "map p_shipment_date (fst (packages (new_analyzer ex_year_end)))
     = [Some (2020, 12, 31), Some (2021, 1, 1), None, Some (2021, 1, 3)]
   \<and> iso_week (2020, 12, 31) = (2020, 53)
   \<and> iso_week (2021, 1, 1) = (2020, 53)
   \<and> iso_week (2021, 1, 3) = (2020, 53)
   \<and> map shipment_week [(2020, 12, 31), (2021, 1, 1), (2021, 1, 3)] = [53, 53, 53]
   \<and> map (\<lambda>r. (t_period r, t_package_count r))
        (fst (analyze_trends ''week'' (new_analyzer ex_year_end)))
       = [(''2020-W52'', 1), (''2021-W00'', 2)]"
proof -
  have dates: "map p_shipment_date (fst (packages (new_analyzer ex_year_end)))
     = [Some (2020, 12, 31), Some (2021, 1, 1), None, Some (2021, 1, 3)]"
    by (simp add: ex_year_end_def packages_def Let_def new_analyzer_def example_defs row_defs
          frame_defs)
  have weeks: "map shipment_week [(2020, 12, 31), (2021, 1, 1), (2021, 1, 3)] = [53, 53, 53]"
    by (simp only: shipment_week_def list.map year_end_iso_weeks snd_conv)
  have "map (\<lambda>r. (t_period r, t_package_count r))
        (fst (analyze_trends ''week'' (new_analyzer ex_year_end)))
       = [(''2020-W52'', 1), (''2021-W00'', 2)]"
    by (simp add: analyze_trends_def trends_def with_period_def ex_year_end_def packages_def
          Let_def new_analyzer_def example_defs row_defs frame_defs year_end_labels)
  with dates weeks year_end_iso_weeks show ?thesis
    by (intro conjI)
qed

text \<open>
  C5 (amended). The analyzer that \<open>filter_data\<close> returns for \<open>returns_only\<close> has a shipment
  table in which every row has the return flag. When nothing else is filtered, the number
  of its rows is the number of returns that \<open>analyze_returns\<close> reports on the unfiltered
  analyzer (none for the empty summary), provided that the descriptor rows of one tracking
  number agree on the return flag and that the return rows take their descriptor rows from
  the same kind of rows as the whole frame.
\<close>

theorem returns_only_filter:
  "(\<forall>p\<in>set (fst (packages (fst (filter_data start_date end_date countries services True self)))).
       p_is_return p)
   \<and> (cache_ok self \<and> return_flags_agree (data self) \<and> same_descriptor_kind (data self) \<longrightarrow>
        length (fst (packages (fst (filter_data None None None None True self))))
          = reported_returns (fst (analyze_returns srt pyc self)))"
proof (intro conjI ballI impI)
  fix p
  let ?df = "filter_rows start_date end_date countries services True (data self)"
  assume "p \<in> set (fst (packages (fst (filter_data start_date end_date countries services True self))))"
  then have "p \<in> set (aggregate_packages ?df)"
    by (simp add: filter_data_def packages_value)
  from aggregate_packages_cases[OF this] obtain k r rs
    where g: "group_rows tracking_number k (descriptor_rows ?df) = r # rs"
      and ret: "p_is_return p = is_return r"
    by blast
  have "r \<in> set ?df"
    using descriptor_group_subset[of k ?df] g by auto
  with ret show "p_is_return p"
    by (simp add: filter_rows_returns)
next
  let ?df = "data self"
  assume h: "cache_ok self \<and> return_flags_agree ?df \<and> same_descriptor_kind ?df"
  have "length (fst (packages (fst (filter_data None None None None True self))))
      = length (aggregate_packages (filter is_return ?df))"
    by (simp add: filter_data_def packages_value filter_rows_returns_only)
  also have "\<dots> = length (map p_tracking_number (aggregate_packages (filter is_return ?df)))"
    by simp
  also have "\<dots> = length (group_keys tracking_number (filter is_return (descriptor_rows ?df)))"
    using h by (simp only: packages_tracking_numbers descriptor_rows_returns)
  also have "\<dots> = length (filter (\<lambda>k. is_return (hd (group_rows tracking_number k (descriptor_rows ?df))))
           (group_keys tracking_number (descriptor_rows ?df)))"
    using h by (simp add: return_keys)
  also have "\<dots> = length (filter id (map p_is_return (aggregate_packages ?df)))"
    by (simp add: packages_is_return filter_map comp_def)
  also have "\<dots> = length (filter p_is_return (aggregate_packages ?df))"
    by (simp add: filter_map comp_def)
  also have "\<dots> = reported_returns (fst (analyze_returns srt pyc self))"
    using h by (simp add: analyze_returns_def fst_case_packages packages_value reported_returns_of)
  finally show "length (fst (packages (fst (filter_data None None None None True self))))
          = reported_returns (fst (analyze_returns srt pyc self))" .
qed

text \<open>
  An outbound shipment and a return: the filtered shipment table has the one row of the
  return, and one return is reported.
\<close>

theorem returns_only_filter_witness:
  "cache_ok (new_analyzer ex_returns)
   \<and> return_flags_agree (data (new_analyzer ex_returns))
   \<and> same_descriptor_kind (data (new_analyzer ex_returns))
   \<and> list_all p_is_return
        (fst (packages (fst (filter_data None None None None True (new_analyzer ex_returns)))))
   \<and> length (fst (packages (fst (filter_data None None None None True (new_analyzer ex_returns)))))
       = reported_returns (fst (analyze_returns stable_sort None (new_analyzer ex_returns)))
   \<and> reported_returns (fst (analyze_returns stable_sort None (new_analyzer ex_returns))) = 1"
proof -
  have agree: "return_flags_agree (data (new_analyzer ex_returns))"
    by (simp add: return_flags_agree_def returns_defs new_analyzer_def example_defs row_defs
          frame_defs)
  have kind: "same_descriptor_kind (data (new_analyzer ex_returns))"
    by (simp add: same_descriptor_kind_def returns_defs new_analyzer_def example_defs row_defs
          frame_defs)
  have one: "reported_returns (fst (analyze_returns stable_sort None (new_analyzer ex_returns))) = 1"
    by (simp add: returns_defs packages_def Let_def new_analyzer_def example_defs row_defs
          frame_defs)
  note filtered = returns_only_filter[of None None None None "new_analyzer ex_returns" stable_sort None]
  from filtered have flags: "list_all p_is_return
        (fst (packages (fst (filter_data None None None None True (new_analyzer ex_returns)))))"
    unfolding list_all_iff by blast
  from filtered agree kind have
    "length (fst (packages (fst (filter_data None None None None True (new_analyzer ex_returns)))))
       = reported_returns (fst (analyze_returns stable_sort None (new_analyzer ex_returns)))"
    using cache_ok_new by blast
  with agree kind one flags show ?thesis
    using cache_ok_new by (intro conjI)
qed

text \<open>
  C5 as stated fails. The filter keeps charge lines, and the shipment table takes the flag
  of a shipment from its first descriptor row. With an outbound freight line before the
  return freight line of 1Z001 the filtered table has two rows and one return is reported;
  with a return whose package line is not a freight line, in a frame that has freight
  lines, the filtered table has one row and no return is reported.
\<close>

theorem returns_only_filter_counterexample:
  "length (fst (packages (fst (filter_data None None None None True
                                (new_analyzer ex_mixed_flags))))) = 2
   \<and> reported_returns (fst (analyze_returns stable_sort None (new_analyzer ex_mixed_flags))) = 1
   \<and> length (fst (packages (fst (filter_data None None None None True
                                  (new_analyzer ex_return_without_freight))))) = 1
   \<and> ra_summary (fst (analyze_returns stable_sort None (new_analyzer ex_return_without_freight))) = None"
  by (simp add: returns_defs packages_def Let_def new_analyzer_def example_defs row_defs
        frame_defs)

end
